theory Spec2Isabelle
  imports Complex_Main "HOL-Library.AList"
begin

section \<open>Strings\<close>

text \<open>
  Python's \<^verbatim>\<open>sub in s\<close> on strings: \<open>sub\<close> occurs in \<open>s\<close> as a contiguous run.
  The test is tried at every start position, from the left.
\<close>

fun py_in :: "string \<Rightarrow> string \<Rightarrow> bool" where
  "py_in sub [] = (sub = [])"
| "py_in sub (c # cs) = (take (length sub) (c # cs) = sub \<or> py_in sub cs)"




text \<open>\<^verbatim>\<open>sep.join(xs)\<close>.\<close>

fun join :: "string \<Rightarrow> string list \<Rightarrow> string" where
  "join sep [] = []"
| "join sep [x] = x"
| "join sep (x # y # ys) = x @ sep @ join sep (y # ys)"

section \<open>Python values and exceptions\<close>

text \<open>
  The exceptions that leave the modelled functions uncaught. \<open>Ill_typed\<close> is not a
  Python exception: it marks a manifest that gives a field a value outside the type its
  dataclass annotation declares. Python stores such a value unchecked; the typed
  records below cannot hold it, and the model stops there.
\<close>

datatype py_exception =
  AttributeError | TypeError | KeyError | IndexError | ValueError
  | IsADirectoryError | FileExistsError | FileNotFoundError | PermissionError
  | UnicodeDecodeError | Ill_typed

text \<open>Sequencing of computations that may raise: the first exception wins.\<close>

definition bind_e :: "'e + 'a \<Rightarrow> ('a \<Rightarrow> 'e + 'b) \<Rightarrow> 'e + 'b" where
  "bind_e m f = (case m of Inl e \<Rightarrow> Inl e | Inr x \<Rightarrow> f x)"

fun map_e :: "('a \<Rightarrow> 'e + 'b) \<Rightarrow> 'a list \<Rightarrow> 'e + 'b list" where
  "map_e f [] = Inr []"
| "map_e f (x # xs) = bind_e (f x) (\<lambda>y. bind_e (map_e f xs) (\<lambda>ys. Inr (y # ys)))"

text \<open>
  A JSON document as \<^verbatim>\<open>json.load\<close> returns it and \<^verbatim>\<open>json.dump\<close> takes it: a dict keeps
  its items in insertion order. Python floats are abstracted to reals (no NaN, no
  infinities, no rounding).
\<close>

datatype json =
  JNull | JBool bool | JInt int | JFloat real | JStr string
  | JList "json list" | JObj "(string \<times> json) list"

text \<open>Python truthiness of a loaded document (\<^verbatim>\<open>if not data\<close>).\<close>

fun truthy :: "json \<Rightarrow> bool" where
  "truthy JNull = False"
| "truthy (JBool b) = b"
| "truthy (JInt i) = (i \<noteq> 0)"
| "truthy (JFloat r) = (r \<noteq> 0)"
| "truthy (JStr s) = (s \<noteq> [])"
| "truthy (JList xs) = (xs \<noteq> [])"
| "truthy (JObj d) = (d \<noteq> [])"

text \<open>An optional field as a JSON value: \<open>None\<close> is \<open>null\<close>.\<close>

definition opt_json :: "('a \<Rightarrow> json) \<Rightarrow> 'a option \<Rightarrow> json" where
  "opt_json enc v = (case v of None \<Rightarrow> JNull | Some x \<Rightarrow> enc x)"

text \<open>
  Reading a key of a dict into a typed field. \<open>get_*\<close> follow \<^verbatim>\<open>d.get(k, default)\<close>
  and keyword arguments with a default; \<open>req_str\<close> is a required constructor argument,
  whose absence is a \<open>TypeError\<close>.
\<close>

definition get_str :: "(string \<times> json) list \<Rightarrow> string \<Rightarrow> string \<Rightarrow> py_exception + string" where
  "get_str d k dflt =
     (case map_of d k of None \<Rightarrow> Inr dflt | Some (JStr s) \<Rightarrow> Inr s | Some _ \<Rightarrow> Inl Ill_typed)"

definition req_str :: "(string \<times> json) list \<Rightarrow> string \<Rightarrow> py_exception + string" where
  "req_str d k =
     (case map_of d k of None \<Rightarrow> Inl TypeError | Some (JStr s) \<Rightarrow> Inr s | Some _ \<Rightarrow> Inl Ill_typed)"

definition get_opt_str :: "(string \<times> json) list \<Rightarrow> string \<Rightarrow> py_exception + string option" where
  "get_opt_str d k =
     (case map_of d k of None \<Rightarrow> Inr None | Some JNull \<Rightarrow> Inr None
      | Some (JStr s) \<Rightarrow> Inr (Some s) | Some _ \<Rightarrow> Inl Ill_typed)"

definition get_opt_int :: "(string \<times> json) list \<Rightarrow> string \<Rightarrow> py_exception + int option" where
  "get_opt_int d k =
     (case map_of d k of None \<Rightarrow> Inr None | Some JNull \<Rightarrow> Inr None
      | Some (JInt i) \<Rightarrow> Inr (Some i) | Some _ \<Rightarrow> Inl Ill_typed)"

definition get_int :: "(string \<times> json) list \<Rightarrow> string \<Rightarrow> int \<Rightarrow> py_exception + int" where
  "get_int d k dflt =
     (case map_of d k of None \<Rightarrow> Inr dflt | Some (JInt i) \<Rightarrow> Inr i | Some _ \<Rightarrow> Inl Ill_typed)"

definition get_float :: "(string \<times> json) list \<Rightarrow> string \<Rightarrow> real \<Rightarrow> py_exception + real" where
  "get_float d k dflt =
     (case map_of d k of None \<Rightarrow> Inr dflt | Some (JFloat r) \<Rightarrow> Inr r
      | Some (JInt i) \<Rightarrow> Inr (of_int i) | Some _ \<Rightarrow> Inl Ill_typed)"

definition get_bool :: "(string \<times> json) list \<Rightarrow> string \<Rightarrow> bool \<Rightarrow> py_exception + bool" where
  "get_bool d k dflt =
     (case map_of d k of None \<Rightarrow> Inr dflt | Some (JBool b) \<Rightarrow> Inr b | Some _ \<Rightarrow> Inl Ill_typed)"

definition as_str :: "json \<Rightarrow> py_exception + string" where
  "as_str j = (case j of JStr s \<Rightarrow> Inr s | _ \<Rightarrow> Inl Ill_typed)"

text \<open>
  \<^verbatim>\<open>for x in v\<close> over a loaded value: a list gives its elements, a dict its keys, a
  string its characters; anything else is not iterable.
\<close>

definition py_iter :: "json \<Rightarrow> py_exception + json list" where
  "py_iter v =
     (case v of JList xs \<Rightarrow> Inr xs
      | JObj d \<Rightarrow> Inr (map (\<lambda>kv. JStr (fst kv)) d)
      | JStr s \<Rightarrow> Inr (map (\<lambda>c. JStr [c]) s)
      | _ \<Rightarrow> Inl TypeError)"

text \<open>
  \<^verbatim>\<open>xs.pop(i)\<close> and \<^verbatim>\<open>xs.insert(i, x)\<close>: a negative index counts from the end; \<open>pop\<close>
  raises out of range, \<open>insert\<close> clips the position to the list.
\<close>

definition list_pop :: "'a list \<Rightarrow> int \<Rightarrow> py_exception + ('a \<times> 'a list)" where
  "list_pop xs i =
     (let n = int (length xs); j = (if i < 0 then i + n else i)
      in if 0 \<le> j \<and> j < n then Inr (xs ! nat j, take (nat j) xs @ drop (Suc (nat j)) xs)
         else Inl IndexError)"

definition list_insert :: "'a list \<Rightarrow> int \<Rightarrow> 'a \<Rightarrow> 'a list" where
  "list_insert xs i x =
     (let n = int (length xs); j = (if i < 0 then max 0 (i + n) else min i n)
      in take (nat j) xs @ x # drop (nat j) xs)"

section \<open>Paths and the file system\<close>

text \<open>
  A \<^verbatim>\<open>pathlib.Path\<close> is the list of its components, counted from the root. The
  names the program itself joins to a directory (\<^verbatim>\<open>playlist.json\<close>, a sanitized playlist
  name, the \<^verbatim>\<open>.name\<close> of a file) are single components, and \<^verbatim>\<open>p / name\<close> appends
  them. A name read from a manifest is any string: \<open>py_join\<close> below is \<^verbatim>\<open>p / s\<close> for it.
\<close>

type_synonym Path = "string list"

definition path_name :: "Path \<Rightarrow> string" where
  "path_name p = (if p = [] then [] else last p)"

definition parent :: "Path \<Rightarrow> Path" where
  "parent p = butlast p"

text \<open>
  \<^verbatim>\<open>p / s\<close> for a string \<open>s\<close>: the string is split at the slashes, empty components
  and \<^verbatim>\<open>.\<close> are dropped, \<^verbatim>\<open>..\<close> stays; a string that starts with a slash is an absolute
  path and replaces \<open>p\<close>.
\<close>

fun split_on :: "char \<Rightarrow> string \<Rightarrow> string list" where
  "split_on sep [] = [[]]"
| "split_on sep (c # cs) =
     (if c = sep then [] # split_on sep cs
      else (case split_on sep cs of [] \<Rightarrow> [[c]] | w # ws \<Rightarrow> (c # w) # ws))"

definition py_join :: "Path \<Rightarrow> string \<Rightarrow> Path" where
  "py_join p s =
     (let parts = filter (\<lambda>c. c \<noteq> [] \<and> c \<noteq> ''.'') (split_on CHR ''/'' s)
      in if take 1 s = ''/'' then parts else p @ parts)"

text \<open>
  \<^verbatim>\<open>Path.stem\<close> and \<^verbatim>\<open>Path.with_suffix\<close>: the suffix of a name starts at its last dot,
  unless that dot is the first or the last character.
\<close>

definition stem :: "Path \<Rightarrow> string" where
  "stem p =
     (let name = path_name p;
          ext = takeWhile (\<lambda>c. c \<noteq> CHR ''.'') (rev name);
          i = length name - length ext - 1
      in if CHR ''.'' \<in> set name \<and> 0 < i \<and> ext \<noteq> [] then take i name else name)"

definition with_suffix :: "Path \<Rightarrow> string \<Rightarrow> Path" where
  "with_suffix p suffix = parent p @ [stem p @ suffix]"

text \<open>\<^verbatim>\<open>p.relative_to(base)\<close> and \<^verbatim>\<open>str\<close> of the relative path.\<close>

definition relative_to :: "Path \<Rightarrow> Path \<Rightarrow> py_exception + Path" where
  "relative_to p base =
     (if take (length base) p = base then Inr (drop (length base) p) else Inl ValueError)"

definition str_path :: "Path \<Rightarrow> string" where
  "str_path p = (if p = [] then ''.'' else join ''/'' p)"

text \<open>
  The file system: finitely many entries, each a directory or a file. A file holds a
  JSON document, or text that does not parse as one (a damaged manifest), or bytes that
  are not UTF-8 text (audio, images). The root always exists. The keys are resolved
  paths: no component is \<^verbatim>\<open>..\<close>.
\<close>

datatype content = Json json | Not_json | Not_utf8

datatype node = Dir | File content

type_synonym fs = "(Path \<times> node) list"

definition lookup :: "fs \<Rightarrow> Path \<Rightarrow> node option" where
  "lookup fs p = (if p = [] then Some Dir else map_of fs p)"

definition path_exists :: "fs \<Rightarrow> Path \<Rightarrow> bool" where
  "path_exists fs p = (lookup fs p \<noteq> None)"



text \<open>
  \<^verbatim>\<open>shutil.copy2(src, dst)\<close>: copies a file; a destination that is a directory receives
  the file under the source's name. \<^verbatim>\<open>shutil.rmtree(p)\<close> removes a directory with
  everything below it.
\<close>

definition copy2 :: "fs \<Rightarrow> Path \<Rightarrow> Path \<Rightarrow> py_exception + fs" where
  "copy2 fs src dst =
     (case lookup fs src of
        None \<Rightarrow> Inl FileNotFoundError
      | Some Dir \<Rightarrow> Inl IsADirectoryError
      | Some (File c) \<Rightarrow>
          (let d = (if lookup fs dst = Some Dir then dst @ [path_name src] else dst)
           in if lookup fs d = Some Dir then Inl IsADirectoryError
              else if lookup fs (parent d) \<noteq> Some Dir then Inl FileNotFoundError
              else Inr (AList.update d (File c) fs)))"

text \<open>
  A path built from a name of a manifest may hold \<^verbatim>\<open>..\<close>, which the operating system
  follows when the path is used: \<open>resolve\<close> walks the components, and \<^verbatim>\<open>..\<close> after a
  directory that exists leads to its parent (the root is its own parent); after
  anything else the path leads nowhere. \<open>os_exists\<close> is \<^verbatim>\<open>p.exists()\<close> and \<open>os_unlink\<close>
  is \<^verbatim>\<open>p.unlink()\<close> for such a path. Unlinking a directory raises; unlinking a file
  raises when the operating system refuses it (\<open>denied\<close>, decided by the environment:
  the permissions of the directory).
\<close>

fun walk :: "fs \<Rightarrow> Path \<Rightarrow> string list \<Rightarrow> Path option" where
  "walk fs cur [] = Some cur"
| "walk fs cur (c # cs) =
     (if c = ''..''
      then (if lookup fs cur = Some Dir then walk fs (butlast cur) cs else None)
      else walk fs (cur @ [c]) cs)"

definition resolve :: "fs \<Rightarrow> Path \<Rightarrow> Path option" where
  "resolve fs p = walk fs [] p"

definition os_exists :: "fs \<Rightarrow> Path \<Rightarrow> bool" where
  "os_exists fs p = (case resolve fs p of None \<Rightarrow> False | Some q \<Rightarrow> path_exists fs q)"



section \<open>utils/file\_utils.py\<close>




text \<open>
  \<^verbatim>\<open>FileUtils.load_json\<close>: a missing file and a text that does not parse give \<open>None\<close>
  (the two exceptions the source catches); opening a directory raises, and so does
  reading bytes that are not UTF-8.
\<close>

definition load_json :: "fs \<Rightarrow> Path \<Rightarrow> py_exception + json option" where
  "load_json fs filepath =
     (case lookup fs filepath of
        None \<Rightarrow> Inr None
      | Some Dir \<Rightarrow> Inl IsADirectoryError
      | Some (File Not_json) \<Rightarrow> Inr None
      | Some (File Not_utf8) \<Rightarrow> Inl UnicodeDecodeError
      | Some (File (Json j)) \<Rightarrow> Inr (Some j))"

text \<open>
  \<^verbatim>\<open>FileUtils.save_json\<close> (always called with \<^verbatim>\<open>backup=True\<close>): backup of an existing
  file, write to a temporary file, rename over the target. Every exception is caught
  and turned into \<open>False\<close>. Besides the failures the file system of the model shows
  (a directory in the way, a missing parent directory), the environment may make any of
  the three steps fail (permissions, a full disk): the \<open>fault\<close> parameter says which.
\<close>

datatype fault = No_fault | Backup_fails | Write_fails | Replace_fails

definition save_json :: "fault \<Rightarrow> fs \<Rightarrow> Path \<Rightarrow> json \<Rightarrow> bool \<times> fs" where
  "save_json fault fs filepath data =
     (let backup_path = with_suffix filepath ''.json.bak'';
          temp_path = with_suffix filepath ''.json.tmp''
      in case (if path_exists fs filepath
               then (if fault = Backup_fails then Inl FileNotFoundError
                     else copy2 fs filepath backup_path)
               else Inr fs) of
           Inl e \<Rightarrow> (False, fs)
         | Inr fs1 \<Rightarrow>
             if fault = Write_fails \<or> lookup fs1 temp_path = Some Dir
                \<or> lookup fs1 (parent temp_path) \<noteq> Some Dir
             then (False, fs1)
             else let fs2 = AList.update temp_path (File (Json data)) fs1
                  in if fault = Replace_fails \<or> lookup fs2 filepath = Some Dir
                     then (False, fs2)
                     else (True, AList.update filepath (File (Json data))
                                   (AList.delete temp_path fs2)))"












section \<open>core/playlist\_manager.py: the data model\<close>

text \<open>
  The dataclasses, with the types of their annotations; \<open>Optional[...]\<close> is \<open>option\<close>.
  A \<open>float\<close> field is a real (an integer stored there counts as the equal real).
\<close>

record Track =
  filename :: string
  title :: string
  artist :: "string option"
  album :: "string option"
  duration :: real
  track_number :: "int option"
  year :: "int option"
  genre :: "string option"
  downloaded_date :: "string option"
  source_id :: "string option"
  file_hash :: "string option"
  play_count :: int
  skip_count :: int
  last_played :: "string option"

record PlaylistSettings =
  shuffle_enabled :: bool
  repeat_mode :: string
  volume :: real
  equalizer_preset :: string

record PlaylistSource =
  type :: string
  url :: "string option"
  last_sync :: "string option"

record Playlist =
  path :: Path
  name :: string
  description :: string
  created_date :: string
  modified_date :: string
  cover_image :: "string option"
  total_duration :: real
  track_count :: int
  source :: PlaylistSource
  settings :: PlaylistSettings
  tracks :: "Track list"
  tags :: "string list"

text \<open>
  \<^verbatim>\<open>{k: v for k, v in asdict(self).items() if v is not None}\<close>: the items of the
  dataclass in field order, those with value \<open>None\<close> dropped.
\<close>

definition drop_none :: "(string \<times> json) list \<Rightarrow> (string \<times> json) list" where
  "drop_none items = filter (\<lambda>kv. snd kv \<noteq> JNull) items"

definition track_asdict :: "Track \<Rightarrow> (string \<times> json) list" where
  "track_asdict t =
     [(''filename'', JStr (filename t)),
      (''title'', JStr (title t)),
      (''artist'', opt_json JStr (artist t)),
      (''album'', opt_json JStr (album t)),
      (''duration'', JFloat (duration t)),
      (''track_number'', opt_json JInt (track_number t)),
      (''year'', opt_json JInt (year t)),
      (''genre'', opt_json JStr (genre t)),
      (''downloaded_date'', opt_json JStr (downloaded_date t)),
      (''source_id'', opt_json JStr (source_id t)),
      (''file_hash'', opt_json JStr (file_hash t)),
      (''play_count'', JInt (play_count t)),
      (''skip_count'', JInt (skip_count t)),
      (''last_played'', opt_json JStr (last_played t))]"

definition track_to_dict :: "Track \<Rightarrow> json" where
  "track_to_dict t = JObj (drop_none (track_asdict t))"

text \<open>
  \<^verbatim>\<open>Track.from_dict\<close>: the keys that are field names become keyword arguments of the
  constructor; \<open>filename\<close> and \<open>title\<close> have no default. A value that is not a dict has
  no \<^verbatim>\<open>items\<close>.
\<close>

definition track_from_dict :: "json \<Rightarrow> py_exception + Track" where
  "track_from_dict data =
     (case data of
        JObj d \<Rightarrow>
          bind_e (req_str d ''filename'') (\<lambda>v1.
          bind_e (req_str d ''title'') (\<lambda>v2.
          bind_e (get_opt_str d ''artist'') (\<lambda>v3.
          bind_e (get_opt_str d ''album'') (\<lambda>v4.
          bind_e (get_float d ''duration'' 0) (\<lambda>v5.
          bind_e (get_opt_int d ''track_number'') (\<lambda>v6.
          bind_e (get_opt_int d ''year'') (\<lambda>v7.
          bind_e (get_opt_str d ''genre'') (\<lambda>v8.
          bind_e (get_opt_str d ''downloaded_date'') (\<lambda>v9.
          bind_e (get_opt_str d ''source_id'') (\<lambda>v10.
          bind_e (get_opt_str d ''file_hash'') (\<lambda>v11.
          bind_e (get_int d ''play_count'' 0) (\<lambda>v12.
          bind_e (get_int d ''skip_count'' 0) (\<lambda>v13.
          bind_e (get_opt_str d ''last_played'') (\<lambda>v14.
            Inr \<lparr>filename = v1, title = v2, artist = v3, album = v4, duration = v5,
                 track_number = v6, year = v7, genre = v8, downloaded_date = v9,
                 source_id = v10, file_hash = v11, play_count = v12, skip_count = v13,
                 last_played = v14\<rparr>))))))))))))))
      | _ \<Rightarrow> Inl AttributeError)"

text \<open>\<^verbatim>\<open>PlaylistSettings\<close>: \<^verbatim>\<open>asdict\<close> as it is; every field has a default.\<close>

definition default_settings :: PlaylistSettings where
  "default_settings =
     \<lparr>shuffle_enabled = False, repeat_mode = ''none'', volume = 8 / 10,
      equalizer_preset = ''default''\<rparr>"

definition settings_to_dict :: "PlaylistSettings \<Rightarrow> json" where
  "settings_to_dict s =
     JObj [(''shuffle_enabled'', JBool (shuffle_enabled s)),
           (''repeat_mode'', JStr (repeat_mode s)),
           (''volume'', JFloat (volume s)),
           (''equalizer_preset'', JStr (equalizer_preset s))]"

definition settings_from_dict :: "json \<Rightarrow> py_exception + PlaylistSettings" where
  "settings_from_dict data =
     (case data of
        JObj d \<Rightarrow>
          bind_e (get_bool d ''shuffle_enabled'' False) (\<lambda>v1.
          bind_e (get_str d ''repeat_mode'' ''none'') (\<lambda>v2.
          bind_e (get_float d ''volume'' (8 / 10)) (\<lambda>v3.
          bind_e (get_str d ''equalizer_preset'' ''default'') (\<lambda>v4.
            Inr \<lparr>shuffle_enabled = v1, repeat_mode = v2, volume = v3,
                 equalizer_preset = v4\<rparr>))))
      | _ \<Rightarrow> Inl AttributeError)"

text \<open>\<^verbatim>\<open>PlaylistSource\<close>: \<open>None\<close> values dropped; \<open>type\<close> has no default.\<close>

definition source_to_dict :: "PlaylistSource \<Rightarrow> json" where
  "source_to_dict s =
     JObj (drop_none [(''type'', JStr (type s)),
                      (''url'', opt_json JStr (url s)),
                      (''last_sync'', opt_json JStr (last_sync s))])"

definition source_from_dict :: "json \<Rightarrow> py_exception + PlaylistSource" where
  "source_from_dict data =
     (case data of
        JObj d \<Rightarrow>
          bind_e (req_str d ''type'') (\<lambda>v1.
          bind_e (get_opt_str d ''url'') (\<lambda>v2.
          bind_e (get_opt_str d ''last_sync'') (\<lambda>v3.
            Inr \<lparr>type = v1, url = v2, last_sync = v3\<rparr>)))
      | _ \<Rightarrow> Inl AttributeError)"

section \<open>core/playlist\_manager.py: Playlist\<close>

text \<open>
  \<^verbatim>\<open>Playlist.load\<close>. The result is the value returned and the object after the call;
  an exception that escapes is \<open>Inl\<close>. \<^verbatim>\<open>load_json\<close> gives \<open>None\<close> or the document, and
  \<^verbatim>\<open>if not data\<close> also turns an empty document away. The fields are read in the order
  of the source.
\<close>

definition load :: "Playlist \<Rightarrow> fs \<Rightarrow> py_exception + (bool \<times> Playlist)" where
  "load self fs =
     (let json_path = path self @ [''playlist.json'']
      in bind_e (load_json fs json_path) (\<lambda>data.
           case data of
             None \<Rightarrow> Inr (False, self)
           | Some j \<Rightarrow>
               if \<not> truthy j then Inr (False, self)
               else (case j of
                  JObj d \<Rightarrow>
                    bind_e (get_str d ''name'' (name self)) (\<lambda>v_name.
                    bind_e (get_str d ''description'' []) (\<lambda>v_description.
                    bind_e (get_str d ''created_date'' (created_date self)) (\<lambda>v_created.
                    bind_e (get_str d ''modified_date'' (modified_date self)) (\<lambda>v_modified.
                    bind_e (get_opt_str d ''cover_image'') (\<lambda>v_cover.
                    bind_e (get_float d ''total_duration'' 0) (\<lambda>v_total.
                    bind_e (get_int d ''track_count'' 0) (\<lambda>v_count.
                    bind_e (case map_of d ''tags'' of None \<Rightarrow> Inr []
                            | Some (JList xs) \<Rightarrow> map_e as_str xs
                            | Some _ \<Rightarrow> Inl Ill_typed) (\<lambda>v_tags.
                    bind_e (case map_of d ''source'' of None \<Rightarrow> Inr (source self)
                            | Some s \<Rightarrow> source_from_dict s) (\<lambda>v_source.
                    bind_e (case map_of d ''settings'' of None \<Rightarrow> Inr (settings self)
                            | Some s \<Rightarrow> settings_from_dict s) (\<lambda>v_settings.
                    bind_e (case map_of d ''tracks'' of None \<Rightarrow> Inr []
                            | Some ts \<Rightarrow> bind_e (py_iter ts) (map_e track_from_dict)) (\<lambda>v_tracks.
                      Inr (True,
                           self\<lparr>name := v_name, description := v_description,
                                created_date := v_created, modified_date := v_modified,
                                cover_image := v_cover, total_duration := v_total,
                                track_count := v_count, tags := v_tags, source := v_source,
                                settings := v_settings, tracks := v_tracks\<rparr>))))))))))))
                | _ \<Rightarrow> Inl AttributeError)))"

text \<open>
  \<^verbatim>\<open>Playlist.save\<close>; \<open>now\<close> is \<^verbatim>\<open>datetime.now().isoformat()\<close>. \<^verbatim>\<open>sum\<close> adds from the
  left, starting at 0. The result is the value returned, the object and the file system
  after the call.
\<close>

definition save :: "string \<Rightarrow> fault \<Rightarrow> Playlist \<Rightarrow> fs \<Rightarrow> bool \<times> Playlist \<times> fs" where
  "save now fault self fs =
     (let self1 = self\<lparr>modified_date := now\<rparr>;
          self2 = self1\<lparr>track_count := int (length (tracks self1))\<rparr>;
          self3 = self2\<lparr>total_duration := foldl (+) 0 (map duration (tracks self2))\<rparr>;
          data = JObj
            [(''name'', JStr (name self3)),
             (''description'', JStr (description self3)),
             (''created_date'', JStr (created_date self3)),
             (''modified_date'', JStr (modified_date self3)),
             (''cover_image'', opt_json JStr (cover_image self3)),
             (''total_duration'', JFloat (total_duration self3)),
             (''track_count'', JInt (track_count self3)),
             (''tags'', JList (map JStr (tags self3))),
             (''source'', source_to_dict (source self3)),
             (''settings'', settings_to_dict (settings self3)),
             (''tracks'', JList (map track_to_dict (tracks self3)))];
          json_path = path self3 @ [''playlist.json''];
          r = save_json fault fs json_path data
      in (fst r, self3, snd r))"


text \<open>
  What the tag reader and the hash function give for a file: they are outside the
  program. \<open>None\<close> for title and duration means that the key is missing from the
  dictionary \<^verbatim>\<open>read_metadata\<close> returns, where \<^verbatim>\<open>metadata.get\<close> falls back to its default.
\<close>

record Metadata =
  md_title :: "string option"
  md_artist :: "string option"
  md_album :: "string option"
  md_duration :: "real option"
  md_track_number :: "int option"
  md_year :: "int option"
  md_genre :: "string option"

text \<open>
  \<^verbatim>\<open>Track.from_file\<close>: \<open>now\<close> is the time of the call, \<open>meta\<close> and \<open>hash\<close> what
  \<^verbatim>\<open>MetadataUtils.read_metadata\<close> and \<^verbatim>\<open>FileUtils.get_file_hash\<close> return for the file.
  The hash function opens the file, which fails on a directory.
\<close>

definition from_file :: "Metadata \<Rightarrow> string \<Rightarrow> string \<Rightarrow> fs \<Rightarrow> Path \<Rightarrow> Path \<Rightarrow> py_exception + Track" where
  "from_file meta hash now fs filepath playlist_dir =
     bind_e (relative_to filepath playlist_dir) (\<lambda>relative_path.
       case lookup fs filepath of
         None \<Rightarrow> Inl FileNotFoundError
       | Some Dir \<Rightarrow> Inl IsADirectoryError
       | Some (File c) \<Rightarrow>
           Inr \<lparr>filename = str_path relative_path,
                title = (case md_title meta of None \<Rightarrow> stem filepath | Some s \<Rightarrow> s),
                artist = md_artist meta,
                album = md_album meta,
                duration = (case md_duration meta of None \<Rightarrow> 0 | Some r \<Rightarrow> r),
                track_number = md_track_number meta,
                year = md_year meta,
                genre = md_genre meta,
                downloaded_date = Some now,
                source_id = None,
                file_hash = Some hash,
                play_count = 0,
                skip_count = 0,
                last_played = None\<rparr>)"

text \<open>
  The calls of the logger in \<^verbatim>\<open>add_track\<close> and \<^verbatim>\<open>remove_track\<close>: the returned \<open>False\<close>
  alone does not say which branch was taken.
\<close>

datatype log_entry =
  Audio_file_does_not_exist Path
  | File_already_exists_in_playlist Path
  | Invalid_track_index int

text \<open>
  \<^verbatim>\<open>Playlist.add_track\<close>; \<open>now_track\<close> and \<open>now_save\<close> are the clock readings in
  \<^verbatim>\<open>from_file\<close> and in \<^verbatim>\<open>save\<close>. \<open>add_track_tail\<close> is the part after the copy.
\<close>

definition add_track_tail ::
  "Metadata \<Rightarrow> string \<Rightarrow> string \<Rightarrow> string \<Rightarrow> fault \<Rightarrow> Playlist \<Rightarrow> fs \<Rightarrow> Path
   \<Rightarrow> py_exception + (bool \<times> log_entry list \<times> Playlist \<times> fs)" where
  "add_track_tail meta hash now_track now_save fault self fs audio_file =
     bind_e (from_file meta hash now_track fs audio_file (path self)) (\<lambda>track.
       let self1 = self\<lparr>tracks := tracks self @ [track]\<rparr>;
           r = save now_save fault self1 fs
       in Inr (fst r, [], snd r))"

definition add_track ::
  "Metadata \<Rightarrow> string \<Rightarrow> string \<Rightarrow> string \<Rightarrow> fault \<Rightarrow> Playlist \<Rightarrow> fs \<Rightarrow> Path
   \<Rightarrow> py_exception + (bool \<times> log_entry list \<times> Playlist \<times> fs)" where
  "add_track meta hash now_track now_save fault self fs audio_file =
     (if \<not> path_exists fs audio_file
      then Inr (False, [Audio_file_does_not_exist audio_file], self, fs)
      else if parent audio_file \<noteq> path self
      then (let dest_path = path self @ [path_name audio_file]
            in if path_exists fs dest_path
               then Inr (False, [File_already_exists_in_playlist dest_path], self, fs)
               else bind_e (copy2 fs audio_file dest_path) (\<lambda>fs1.
                      add_track_tail meta hash now_track now_save fault self fs1 dest_path))
      else add_track_tail meta hash now_track now_save fault self fs audio_file)"


text \<open>\<^verbatim>\<open>Playlist.reorder_tracks\<close>.\<close>

definition reorder_tracks ::
  "string \<Rightarrow> fault \<Rightarrow> Playlist \<Rightarrow> fs \<Rightarrow> int \<Rightarrow> int \<Rightarrow> py_exception + (bool \<times> Playlist \<times> fs)" where
  "reorder_tracks now fault self fs old_index new_index =
     (if old_index < 0 \<or> old_index \<ge> int (length (tracks self)) then Inr (False, self, fs)
      else if new_index < 0 \<or> new_index \<ge> int (length (tracks self)) then Inr (False, self, fs)
      else bind_e (list_pop (tracks self) old_index) (\<lambda>popped.
             let self1 = self\<lparr>tracks := list_insert (snd popped) new_index (fst popped)\<rparr>
             in Inr (save now fault self1 fs)))"

text \<open>\<^verbatim>\<open>Playlist.get_track_path\<close>.\<close>

definition get_track_path :: "Playlist \<Rightarrow> int \<Rightarrow> Path option" where
  "get_track_path self index =
     (if 0 \<le> index \<and> index < int (length (tracks self))
      then Some (py_join (path self) (filename (tracks self ! nat index)))
      else None)"

section \<open>core/playlist\_manager.py: PlaylistManager\<close>




section \<open>core/downloader.py: service identification\<close>

text \<open>
  \<^verbatim>\<open>PlaylistDownloader.identify_service\<close>: an \<open>if\<close>/\<open>elif\<close> chain of containment
  tests, in the order of the source; the result is \<open>Optional[str]\<close>.
\<close>

definition identify_service :: "string \<Rightarrow> string option" where
  "identify_service u =
     (if py_in ''spotify.com'' u then Some ''spotify''
      else if py_in ''youtube.com'' u \<or> py_in ''youtu.be'' u then Some ''youtube''
      else if py_in ''music.youtube.com'' u then Some ''youtube_music''
      else None)"

section \<open>core/downloader.py: downloading the members of a playlist\<close>

text \<open>
  \<^verbatim>\<open>DownloadProgress\<close>. \<open>current_progress\<close> is written only by the hook that the
  download library calls while it transfers a file; the loops below leave it alone.
  The progress callback is a function of the caller and is not modelled: the object it
  is handed is the \<open>progress\<close> carried through the loop.
\<close>

record DownloadProgress =
  total_tracks :: int
  completed_tracks :: int
  current_track :: string
  current_progress :: real
  errors :: "string list"
  skipped :: "string list"

definition new_progress :: DownloadProgress where
  "new_progress =
     \<lparr>total_tracks = 0, completed_tracks = 0, current_track = [], current_progress = 0,
      errors = [], skipped = []\<rparr>"

text \<open>
  A member of a Spotify playlist: \<^verbatim>\<open>item['track']\<close>, \<open>None\<close> when it is empty, with the
  keys the loop reads.
\<close>

record SpotifyTrack =
  sp_artists :: "string list"
  sp_name :: string
  sp_album :: string
  sp_duration_ms :: int
  sp_track_number :: int
  sp_id :: string

text \<open>
  The loop of \<^verbatim>\<open>download_spotify_playlist\<close> over \<^verbatim>\<open>enumerate(tracks)\<close>. What the
  network gives is a parameter: \<open>fetch i query\<close> is the result of
  \<^verbatim>\<open>_download_from_youtube(search_query, playlist_dir)\<close> for member \<open>i\<close>, the path of the
  file or \<open>None\<close> (that function catches every exception). \<open>clock i\<close> is the clock
  reading while member \<open>i\<close> is processed. The state is the progress object and
  \<^verbatim>\<open>playlist_data['tracks']\<close>.
\<close>

fun spotify_loop ::
  "(nat \<Rightarrow> string \<Rightarrow> Path option) \<Rightarrow> (nat \<Rightarrow> string) \<Rightarrow> nat \<Rightarrow> SpotifyTrack option list
   \<Rightarrow> DownloadProgress \<times> json list \<Rightarrow> DownloadProgress \<times> json list" where
  "spotify_loop fetch clock i [] st = st"
| "spotify_loop fetch clock i (item # items) st =
     (case item of
        None \<Rightarrow> spotify_loop fetch clock (Suc i) items st
      | Some track \<Rightarrow>
          (let artist_names = join '', '' (sp_artists track);
               track_name = sp_name track;
               progress1 = (fst st)\<lparr>current_track := artist_names @ '' - '' @ track_name\<rparr>;
               search_query = artist_names @ '' '' @ track_name @ '' audio''
           in case fetch i search_query of
                Some downloaded_file \<Rightarrow>
                  spotify_loop fetch clock (Suc i) items
                    (progress1\<lparr>completed_tracks := completed_tracks progress1 + 1\<rparr>,
                     snd st @
                       [JObj [(''filename'', JStr (path_name downloaded_file)),
                              (''title'', JStr track_name),
                              (''artist'', JStr artist_names),
                              (''album'', JStr (sp_album track)),
                              (''duration'', JFloat (real_of_int (sp_duration_ms track) / 1000)),
                              (''track_number'', JInt (sp_track_number track)),
                              (''downloaded_date'', JStr (clock i)),
                              (''source_id'', JStr (''spotify:track:'' @ sp_id track))]])
              | None \<Rightarrow>
                  spotify_loop fetch clock (Suc i) items
                    (progress1\<lparr>errors := errors progress1 @ [''Failed to download: '' @ track_name]\<rparr>,
                     snd st)))"

text \<open>The settings every downloaded manifest starts with.\<close>

definition downloaded_settings :: json where
  "downloaded_settings =
     JObj [(''shuffle_enabled'', JBool False), (''repeat_mode'', JStr ''none''),
           (''volume'', JFloat (8 / 10)), (''equalizer_preset'', JStr ''default'')]"

definition playlist_data ::
  "string \<Rightarrow> string \<Rightarrow> string \<Rightarrow> bool \<Rightarrow> string \<Rightarrow> string \<Rightarrow> json list \<Rightarrow> json" where
  "playlist_data name' description' now has_cover source_type u tracks' =
     JObj [(''name'', JStr name'),
           (''description'', JStr description'),
           (''created_date'', JStr now),
           (''modified_date'', JStr now),
           (''cover_image'', if has_cover then JStr ''cover.jpg'' else JNull),
           (''source'', JObj [(''type'', JStr source_type), (''url'', JStr u),
                              (''last_sync'', JStr now)]),
           (''settings'', downloaded_settings),
           (''tracks'', JList tracks')]"

text \<open>
  \<^verbatim>\<open>download_spotify_playlist\<close> from the preparation of \<^verbatim>\<open>playlist_data\<close> on: the loop,
  then the manifest is written once (the result of \<^verbatim>\<open>save_json\<close> is not looked at) and
  the directory returned. \<open>fs\<close> is the file system when the loop has ended.
\<close>

definition download_spotify_tracks ::
  "(nat \<Rightarrow> string \<Rightarrow> Path option) \<Rightarrow> (nat \<Rightarrow> string) \<Rightarrow> string \<Rightarrow> fault \<Rightarrow> fs \<Rightarrow> Path
   \<Rightarrow> string \<Rightarrow> string \<Rightarrow> bool \<Rightarrow> string \<Rightarrow> SpotifyTrack option list \<Rightarrow> DownloadProgress
   \<Rightarrow> Path option \<times> DownloadProgress \<times> fs" where
  "download_spotify_tracks fetch clock now fault fs playlist_dir name' description' has_cover u
       tracks' progress =
     (let progress1 = progress\<lparr>total_tracks := int (length tracks')\<rparr>;
          progress2 = progress1\<lparr>completed_tracks := 0\<rparr>;
          st = spotify_loop fetch clock 0 tracks' (progress2, []);
          r = save_json fault fs (playlist_dir @ [''playlist.json''])
                (playlist_data name' description' now has_cover ''spotify'' u (snd st))
      in (Some playlist_dir, fst st, snd r))"

text \<open>
  A member of a YouTube playlist (\<open>None\<close>: an empty entry) and what the download of
  one member gives: \<^verbatim>\<open>extract_info\<close> raises, or it returns the \<^verbatim>\<open>info_dict\<close>; then
  \<^verbatim>\<open>prepare_filename\<close> with the suffix \<^verbatim>\<open>.mp3\<close> names a file that exists or does not.
  A missing key of the dictionaries is \<open>None\<close>.
\<close>

record YtEntry =
  yt_id :: "string option"
  yt_title :: "string option"

record YtInfo =
  info_title :: "string option"
  info_artist :: "string option"
  info_uploader :: "string option"
  info_album :: "string option"
  info_duration :: "real option"

datatype yt_outcome = Extract_raises | Extracted YtInfo Path bool

text \<open>
  The loop of \<^verbatim>\<open>download_youtube_playlist\<close>. \<^verbatim>\<open>entry['id']\<close> is read outside the inner
  \<^verbatim>\<open>try\<close>: a missing id ends the loop with a \<open>KeyError\<close>, which the outer handler
  catches. The first component of the state is that exception.
\<close>

fun youtube_loop ::
  "(nat \<Rightarrow> string \<Rightarrow> yt_outcome) \<Rightarrow> (nat \<Rightarrow> string) \<Rightarrow> nat \<Rightarrow> YtEntry option list
   \<Rightarrow> DownloadProgress \<times> json list \<Rightarrow> py_exception option \<times> DownloadProgress \<times> json list" where
  "youtube_loop fetch clock i [] st = (None, st)"
| "youtube_loop fetch clock i (e # entries) st =
     (case e of
        None \<Rightarrow> youtube_loop fetch clock (Suc i) entries st
      | Some entry \<Rightarrow>
          (case yt_id entry of
             None \<Rightarrow> (Some KeyError, st)
           | Some vid \<Rightarrow>
               (let video_url = ''https://www.youtube.com/watch?v='' @ vid;
                    entry_title = (case yt_title entry of None \<Rightarrow> ''Unknown'' | Some s \<Rightarrow> s);
                    progress1 = (fst st)\<lparr>current_track := entry_title\<rparr>
                in case fetch i video_url of
                     Extract_raises \<Rightarrow>
                       youtube_loop fetch clock (Suc i) entries
                         (progress1\<lparr>errors := errors progress1 @ [''Failed: '' @ entry_title]\<rparr>,
                          snd st)
                   | Extracted info_dict mp3_filename mp3_exists \<Rightarrow>
                       if mp3_exists
                       then youtube_loop fetch clock (Suc i) entries
                         (progress1\<lparr>completed_tracks := completed_tracks progress1 + 1\<rparr>,
                          snd st @
                            [JObj [(''filename'', JStr (path_name mp3_filename)),
                                   (''title'', JStr (case info_title info_dict of
                                                      None \<Rightarrow> stem mp3_filename | Some s \<Rightarrow> s)),
                                   (''artist'', JStr (case info_artist info_dict of
                                        None \<Rightarrow> (case info_uploader info_dict of
                                                    None \<Rightarrow> ''Unknown'' | Some s \<Rightarrow> s)
                                      | Some a \<Rightarrow>
                                          if a = [] then (case info_uploader info_dict of
                                                            None \<Rightarrow> ''Unknown'' | Some s \<Rightarrow> s)
                                          else a)),
                                   (''album'', JStr (case info_album info_dict of
                                                      None \<Rightarrow> [] | Some s \<Rightarrow> s)),
                                   (''duration'', JFloat (case info_duration info_dict of
                                                         None \<Rightarrow> 0 | Some r \<Rightarrow> r)),
                                   (''downloaded_date'', JStr (clock i)),
                                   (''source_id'', JStr (''youtube:video:'' @ vid))]])
                       else youtube_loop fetch clock (Suc i) entries (progress1, snd st))))"

text \<open>
  \<^verbatim>\<open>download_youtube_playlist\<close> from the preparation of \<^verbatim>\<open>playlist_data\<close> on. When the
  loop ends with an exception the function returns \<open>None\<close> and nothing is written.
\<close>

definition download_youtube_tracks ::
  "(nat \<Rightarrow> string \<Rightarrow> yt_outcome) \<Rightarrow> (nat \<Rightarrow> string) \<Rightarrow> string \<Rightarrow> fault \<Rightarrow> fs \<Rightarrow> Path
   \<Rightarrow> string \<Rightarrow> string \<Rightarrow> bool \<Rightarrow> string \<Rightarrow> YtEntry option list \<Rightarrow> DownloadProgress
   \<Rightarrow> Path option \<times> DownloadProgress \<times> fs" where
  "download_youtube_tracks fetch clock now fault fs playlist_dir name' description' has_cover u
       entries progress =
     (let progress1 = progress\<lparr>total_tracks := int (length entries)\<rparr>;
          progress2 = progress1\<lparr>completed_tracks := 0\<rparr>;
          st = youtube_loop fetch clock 0 entries (progress2, [])
      in case fst st of
           Some e \<Rightarrow> (None, fst (snd st), fs)
         | None \<Rightarrow>
             (let r = save_json fault fs (playlist_dir @ [''playlist.json''])
                        (playlist_data name' description' now has_cover
                           (if py_in ''music.youtube.com'' u then ''youtube_music'' else ''youtube'')
                           u (snd (snd st)))
              in (Some playlist_dir, fst (snd st), snd r)))"

text \<open>The tracks of the manifest a directory holds.\<close>

definition manifest_tracks :: "fs \<Rightarrow> Path \<Rightarrow> json list option" where
  "manifest_tracks fs playlist_dir =
     (case lookup fs (playlist_dir @ [''playlist.json'']) of
        Some (File (Json (JObj d))) \<Rightarrow>
          (case map_of d ''tracks'' of Some (JList ts) \<Rightarrow> Some ts | _ \<Rightarrow> None)
      | _ \<Rightarrow> None)"

section \<open>core/audio\_player.py\<close>

text \<open>
  The GStreamer pipeline is outside the program: the model keeps the calls made on it,
  oldest first, and takes what it answers to a query as an argument.
\<close>

datatype gst_state = Gst_NULL | Gst_READY | Gst_PAUSED | Gst_PLAYING

datatype pipeline_call =
  Set_uri Path | Set_state gst_state | Set_volume real | Seek_simple int

text \<open>
  The fields \<^verbatim>\<open>_current_track\<close>, \<^verbatim>\<open>_volume\<close>, \<^verbatim>\<open>_is_paused\<close>, \<^verbatim>\<open>_update_position\<close> of
  \<^verbatim>\<open>AudioPlayer\<close> (an identifier cannot start with an underscore here).
\<close>

record AudioPlayer =
  pipeline :: "pipeline_call list"
  player_current_track :: "Path option"
  player_volume :: real
  player_is_paused :: bool
  player_update_position :: bool

definition AudioPlayer_init :: AudioPlayer where
  "AudioPlayer_init =
     \<lparr>pipeline = [], player_current_track = None, player_volume = 8 / 10,
      player_is_paused = False, player_update_position = False\<rparr>"

definition play :: "AudioPlayer \<Rightarrow> Path \<Rightarrow> AudioPlayer" where
  "play self track_path =
     self\<lparr>player_current_track := Some track_path,
          pipeline := pipeline self @ [Set_uri track_path, Set_state Gst_PLAYING]\<rparr>"

definition set_volume :: "AudioPlayer \<Rightarrow> real \<Rightarrow> AudioPlayer" where
  "set_volume self level =
     (if 0 \<le> level \<and> level \<le> 1
      then self\<lparr>player_volume := level, pipeline := pipeline self @ [Set_volume level]\<rparr>
      else self)"

definition get_volume :: "AudioPlayer \<Rightarrow> real" where
  "get_volume self = player_volume self"

text \<open>
  \<^verbatim>\<open>get_position\<close>: \<open>query\<close> is the pair \<^verbatim>\<open>(success, position)\<close> that
  \<^verbatim>\<open>query_position\<close> answers, in nanoseconds.
\<close>

definition Gst_SECOND :: int where
  "Gst_SECOND = 1000000000"

definition get_position :: "bool \<times> int \<Rightarrow> real" where
  "get_position query = (if fst query then real_of_int (snd query) / real_of_int Gst_SECOND else 0)"

text \<open>\<^verbatim>\<open>int(x)\<close> of a float: truncation towards zero.\<close>

definition py_int :: "real \<Rightarrow> int" where
  "py_int x = (if 0 \<le> x then \<lfloor>x\<rfloor> else \<lceil>x\<rceil>)"

definition seek :: "AudioPlayer \<Rightarrow> real \<Rightarrow> AudioPlayer" where
  "seek self position_seconds =
     self\<lparr>pipeline := pipeline self @ [Seek_simple (py_int (position_seconds * real_of_int Gst_SECOND))]\<rparr>"

text \<open>\<^verbatim>\<open>_start_position_updater\<close>: the polling thread itself is not modelled.\<close>

definition start_position_updater :: "AudioPlayer \<Rightarrow> AudioPlayer" where
  "start_position_updater self = self\<lparr>player_update_position := True\<rparr>"

section \<open>ui/main\_window.py: the playback session\<close>

text \<open>
  The part of \<^verbatim>\<open>MainWindow\<close> that holds the session: the player, the selected
  playlist and the index of the selected track (\<open>-1\<close>: none). The widgets are kept as
  the list of calls made on them.
\<close>

datatype ui_call = Set_playing_track int | Set_track_info string "string option"

record MainWindow =
  audio_player :: AudioPlayer
  current_playlist :: "Playlist option"
  current_track_index :: int
  ui :: "ui_call list"

definition play_current_track :: "fs \<Rightarrow> MainWindow \<Rightarrow> MainWindow" where
  "play_current_track fs self =
     (case current_playlist self of
        None \<Rightarrow> self
      | Some playlist \<Rightarrow>
          if current_track_index self < 0 then self
          else (case get_track_path playlist (current_track_index self) of
                  None \<Rightarrow> self
                | Some track_path \<Rightarrow>
                    if os_exists fs track_path
                    then (let track = tracks playlist ! nat (current_track_index self)
                          in self\<lparr>audio_player :=
                                    start_position_updater (play (audio_player self) track_path),
                                  ui := ui self @ [Set_playing_track (current_track_index self),
                                                   Set_track_info (title track) (artist track)]\<rparr>)
                    else self))"

text \<open>\<^verbatim>\<open>_play_previous\<close>; \<open>query\<close> is what the pipeline answers to the position query.\<close>

definition play_previous :: "bool \<times> int \<Rightarrow> fs \<Rightarrow> MainWindow \<Rightarrow> MainWindow" where
  "play_previous query fs self =
     (case current_playlist self of
        None \<Rightarrow> self
      | Some playlist \<Rightarrow>
          if tracks playlist = [] then self
          else if get_position query > 3
          then self\<lparr>audio_player := seek (audio_player self) 0\<rparr>
          else play_current_track fs
                 (self\<lparr>current_track_index :=
                    (current_track_index self - 1) mod int (length (tracks playlist))\<rparr>))"

text \<open>
  \<^verbatim>\<open>_on_track_reordered\<close>: the result of \<^verbatim>\<open>reorder_tracks\<close> is not looked at; the index
  is adjusted in any case.
\<close>

definition on_track_reordered ::
  "string \<Rightarrow> fault \<Rightarrow> fs \<Rightarrow> MainWindow \<Rightarrow> int \<Rightarrow> int \<Rightarrow> py_exception + (MainWindow \<times> fs)" where
  "on_track_reordered now fault fs self old_index new_index =
     (case current_playlist self of
        None \<Rightarrow> Inr (self, fs)
      | Some playlist \<Rightarrow>
          bind_e (reorder_tracks now fault playlist fs old_index new_index) (\<lambda>r.
            let self1 = self\<lparr>current_playlist := Some (fst (snd r))\<rparr>
            in Inr (if current_track_index self1 = old_index
                    then self1\<lparr>current_track_index := new_index\<rparr>
                    else if old_index < current_track_index self1
                            \<and> current_track_index self1 \<le> new_index
                    then self1\<lparr>current_track_index := current_track_index self1 - 1\<rparr>
                    else if new_index \<le> current_track_index self1
                            \<and> current_track_index self1 < old_index
                    then self1\<lparr>current_track_index := current_track_index self1 + 1\<rparr>
                    else self1,
                    snd (snd r))))"

section \<open>Example states\<close>

text \<open>A playlist of three tracks in its directory, used to instantiate the theorems.\<close>

definition example_track :: "string \<Rightarrow> real \<Rightarrow> Track" where
  "example_track f d =
     \<lparr>filename = f, title = f, artist = Some ''Band'', album = None, duration = d,
      track_number = None, year = Some 1998, genre = None, downloaded_date = None,
      source_id = None, file_hash = None, play_count = 0, skip_count = 0,
      last_played = None\<rparr>"

definition example_dir :: Path where
  "example_dir = [''home'', ''Music'', ''Playlists'', ''Mix'']"

definition example_playlist :: Playlist where
  "example_playlist =
     \<lparr>path = example_dir, name = ''Mix'', description = ''songs'',
      created_date = ''2024-01-01T00:00:00'', modified_date = ''2024-01-01T00:00:00'',
      cover_image = None, total_duration = 0, track_count = 0,
      source = \<lparr>type = ''manual'', url = None, last_sync = None\<rparr>,
      settings = default_settings,
      tracks = [example_track ''a.mp3'' 1, example_track ''b.mp3'' 2, example_track ''c.mp3'' 3],
      tags = [''rock'']\<rparr>"

definition example_fs :: fs where
  "example_fs =
     [([''home''], Dir), ([''home'', ''Music''], Dir), ([''home'', ''Music'', ''Playlists''], Dir),
      (example_dir, Dir),
      (example_dir @ [''a.mp3''], File Not_utf8),
      (example_dir @ [''c.mp3''], File Not_utf8)]"

definition example_meta :: Metadata where
  "example_meta =
     \<lparr>md_title = Some ''A'', md_artist = None, md_album = None, md_duration = Some 1,
      md_track_number = None, md_year = None, md_genre = None\<rparr>"

definition example_window :: MainWindow where
  "example_window =
     \<lparr>audio_player = AudioPlayer_init, current_playlist = Some example_playlist,
      current_track_index = 2, ui = []\<rparr>"

text \<open>
  Batches of five members. In the Spotify batch the search for the third member finds
  nothing. In the two YouTube batches the third member fails: in the first its
  extraction raises, in the second the extraction returns but the \<^verbatim>\<open>.mp3\<close> file it
  names is not there.
\<close>

definition example_member :: "string \<Rightarrow> SpotifyTrack option" where
  "example_member n =
     Some \<lparr>sp_artists = [''Band''], sp_name = n, sp_album = ''LP'', sp_duration_ms = 180000,
           sp_track_number = 1, sp_id = n\<rparr>"

definition example_members :: "SpotifyTrack option list" where
  "example_members = map example_member [''s1'', ''s2'', ''s3'', ''s4'', ''s5'']"

definition example_search :: "nat \<Rightarrow> string \<Rightarrow> Path option" where
  "example_search i query =
     ([Some (example_dir @ [''s1.mp3'']), Some (example_dir @ [''s2.mp3'']), None,
       Some (example_dir @ [''s4.mp3'']), Some (example_dir @ [''s5.mp3''])] ! i)"

definition example_entry :: "string \<Rightarrow> YtEntry option" where
  "example_entry n = Some \<lparr>yt_id = Some n, yt_title = Some n\<rparr>"

definition example_entries :: "YtEntry option list" where
  "example_entries = map example_entry [''v1'', ''v2'', ''v3'', ''v4'', ''v5'']"

definition example_info :: YtInfo where
  "example_info =
     \<lparr>info_title = Some ''song'', info_artist = None, info_uploader = Some ''Band'',
      info_album = None, info_duration = Some 180\<rparr>"

definition example_fetch_raising :: "nat \<Rightarrow> string \<Rightarrow> yt_outcome" where
  "example_fetch_raising i video_url =
     ([Extracted example_info (example_dir @ [''v1.mp3'']) True,
       Extracted example_info (example_dir @ [''v2.mp3'']) True,
       Extract_raises,
       Extracted example_info (example_dir @ [''v4.mp3'']) True,
       Extracted example_info (example_dir @ [''v5.mp3'']) True] ! i)"

definition example_fetch_missing :: "nat \<Rightarrow> string \<Rightarrow> yt_outcome" where
  "example_fetch_missing i video_url =
     ([Extracted example_info (example_dir @ [''v1.mp3'']) True,
       Extracted example_info (example_dir @ [''v2.mp3'']) True,
       Extracted example_info (example_dir @ [''v3.mp3'']) False,
       Extracted example_info (example_dir @ [''v4.mp3'']) True,
       Extracted example_info (example_dir @ [''v5.mp3'']) True] ! i)"

definition example_spotify_run :: "Path option \<times> DownloadProgress \<times> fs" where
  "example_spotify_run =
     download_spotify_tracks example_search (\<lambda>i. ''t'') ''t'' No_fault example_fs example_dir
       ''Mix'' ''songs'' False ''https://open.spotify.com/playlist/p1'' example_members
       new_progress"

definition example_youtube_run :: "(nat \<Rightarrow> string \<Rightarrow> yt_outcome) \<Rightarrow> Path option \<times> DownloadProgress \<times> fs" where
  "example_youtube_run fetch =
     download_youtube_tracks fetch (\<lambda>i. ''t'') ''t'' No_fault example_fs example_dir
       ''Mix'' ''songs'' False ''https://www.youtube.com/playlist?list=PL1'' example_entries
       new_progress"

text \<open>The file names of the tracks in a manifest.\<close>

definition manifest_filenames :: "fs \<Rightarrow> Path \<Rightarrow> json option list option" where
  "manifest_filenames fs playlist_dir =
     map_option (map (\<lambda>t. case t of JObj d \<Rightarrow> map_of d ''filename'' | _ \<Rightarrow> None))
       (manifest_tracks fs playlist_dir)"







section \<open>Facts about joined and resolved paths\<close>

lemma split_on_no_sep: "sep \<notin> set s \<Longrightarrow> split_on sep s = [s]"
  by (induction s) auto

lemma py_join_single:
  "CHR ''/'' \<notin> set s \<Longrightarrow> s \<noteq> [] \<Longrightarrow> s \<noteq> ''.'' \<Longrightarrow> py_join p s = p @ [s]"
  by (cases s) (auto simp: py_join_def split_on_no_sep)

lemma walk_plain: "''..'' \<notin> set cs \<Longrightarrow> walk fs cur cs = Some (cur @ cs)"
  by (induction cs arbitrary: cur) auto

lemma os_exists_plain: "''..'' \<notin> set p \<Longrightarrow> os_exists fs p = path_exists fs p"
  by (simp add: os_exists_def resolve_def walk_plain)


section \<open>Facts about containment\<close>

lemma py_in_iff: "py_in sub s \<longleftrightarrow> (\<exists>p q. s = p @ sub @ q)"
proof (induction s)
  case Nil
  then show ?case by auto
next
  case (Cons c cs)
  have "take (length sub) (c # cs) = sub \<longleftrightarrow> (\<exists>q. c # cs = sub @ q)"
  proof
    assume "take (length sub) (c # cs) = sub"
    then have "c # cs = sub @ drop (length sub) (c # cs)"
      by (metis append_take_drop_id)
    then show "\<exists>q. c # cs = sub @ q" ..
  next
    assume "\<exists>q. c # cs = sub @ q"
    then obtain q where "c # cs = sub @ q" ..
    then show "take (length sub) (c # cs) = sub" by simp
  qed
  moreover have "(\<exists>p q. c # cs = p @ sub @ q) \<longleftrightarrow>
                 (\<exists>q. c # cs = sub @ q) \<or> (\<exists>p q. cs = p @ sub @ q)"
  proof
    assume "\<exists>p q. c # cs = p @ sub @ q"
    then obtain p q where pq: "c # cs = p @ sub @ q" by blast
    show "(\<exists>q. c # cs = sub @ q) \<or> (\<exists>p q. cs = p @ sub @ q)"
    proof (cases p)
      case Nil
      with pq show ?thesis by auto
    next
      case (Cons a p')
      with pq have "cs = p' @ sub @ q" by simp
      then show ?thesis by blast
    qed
  next
    assume "(\<exists>q. c # cs = sub @ q) \<or> (\<exists>p q. cs = p @ sub @ q)"
    then show "\<exists>p q. c # cs = p @ sub @ q"
    proof
      assume "\<exists>q. c # cs = sub @ q"
      then obtain q where "c # cs = [] @ sub @ q" by auto
      then show ?thesis by blast
    next
      assume "\<exists>p q. cs = p @ sub @ q"
      then obtain p q where "c # cs = (c # p) @ sub @ q" by auto
      then show ?thesis by blast
    qed
  qed
  ultimately show ?case using Cons.IH by simp
qed

lemma py_in_suffix_part: "py_in (a @ b) s \<Longrightarrow> py_in b s"
proof -
  assume "py_in (a @ b) s"
  then obtain p q where "s = p @ (a @ b) @ q" unfolding py_in_iff by blast
  then have "s = (p @ a) @ b @ q" by simp
  then show "py_in b s" unfolding py_in_iff by blast
qed

lemma music_youtube_contains_youtube:
  "py_in ''music.youtube.com'' u \<Longrightarrow> py_in ''youtube.com'' u"
  using py_in_suffix_part [of "''music.''" "''youtube.com''" u] by simp

section \<open>Facts about lists: removing, inserting, moving\<close>

definition pop_at :: "'a list \<Rightarrow> nat \<Rightarrow> 'a list" where
  "pop_at xs i = take i xs @ drop (Suc i) xs"

definition insert_at :: "'a list \<Rightarrow> nat \<Rightarrow> 'a \<Rightarrow> 'a list" where
  "insert_at ys j x = take j ys @ x # drop j ys"

definition move :: "'a list \<Rightarrow> nat \<Rightarrow> nat \<Rightarrow> 'a list" where
  "move xs i j = insert_at (pop_at xs i) j (xs ! i)"

lemma list_pop_nat: "i < length xs \<Longrightarrow> list_pop xs (int i) = Inr (xs ! i, pop_at xs i)"
  by (simp add: list_pop_def pop_at_def)

lemma list_insert_nat: "j \<le> length ys \<Longrightarrow> list_insert ys (int j) x = insert_at ys j x"
  by (simp add: list_insert_def insert_at_def min_def)

lemma length_pop_at: "i < length xs \<Longrightarrow> length (pop_at xs i) = length xs - 1"
  by (simp add: pop_at_def)

lemma length_insert_at: "length (insert_at ys j x) = Suc (length ys)"
  by (simp add: insert_at_def)

lemma pop_at_insert_at: "j \<le> length ys \<Longrightarrow> pop_at (insert_at ys j x) j = ys"
  by (simp add: pop_at_def insert_at_def)

lemma insert_at_pop_at: "i < length xs \<Longrightarrow> insert_at (pop_at xs i) i (xs ! i) = xs"
  by (simp add: pop_at_def insert_at_def id_take_nth_drop [symmetric])

lemma pop_at_nth:
  "i < length xs \<Longrightarrow> k < length xs - 1 \<Longrightarrow> pop_at xs i ! k = (if k < i then xs ! k else xs ! Suc k)"
  by (simp add: pop_at_def nth_append min_def)

lemma insert_at_nth:
  "j \<le> length ys \<Longrightarrow> k \<le> length ys \<Longrightarrow>
   insert_at ys j x ! k = (if k < j then ys ! k else if k = j then x else ys ! (k - 1))"
  by (simp add: insert_at_def nth_append nth_Cons' min_def)

lemma length_move: "i < length xs \<Longrightarrow> length (move xs i j) = length xs"
  by (simp add: move_def length_insert_at length_pop_at)

lemma move_nth_target: "i < length xs \<Longrightarrow> j < length xs \<Longrightarrow> move xs i j ! j = xs ! i"
  by (simp add: move_def insert_at_nth length_pop_at)

lemma move_others: "i < length xs \<Longrightarrow> j < length xs \<Longrightarrow> pop_at (move xs i j) j = pop_at xs i"
  by (simp add: move_def pop_at_insert_at length_pop_at)

lemma move_back:
  assumes "i < length xs" "j < length xs"
  shows "move (move xs i j) j i = xs"
proof -
  have "move (move xs i j) j i = insert_at (pop_at (move xs i j) j) i (move xs i j ! j)"
    by (simp add: move_def)
  also have "\<dots> = insert_at (pop_at xs i) i (xs ! i)"
    using assms by (simp add: move_others move_nth_target)
  also have "\<dots> = xs"
    using assms by (simp add: insert_at_pop_at)
  finally show ?thesis .
qed

lemma move_nth:
  assumes "i < length xs" "j < length xs" "k < length xs"
  shows "move xs i j ! k =
     (if k = j then xs ! i
      else if i \<le> k \<and> k < j then xs ! Suc k
      else if j < k \<and> k \<le> i then xs ! (k - 1)
      else xs ! k)"
proof -
  have l: "length (pop_at xs i) = length xs - 1" using assms by (simp add: length_pop_at)
  have j: "j \<le> length (pop_at xs i)" and k: "k \<le> length (pop_at xs i)"
    using assms l by simp_all
  note step = insert_at_nth [OF j k, of "xs ! i"]
  show ?thesis
  proof (cases "k = j")
    case True
    then show ?thesis using step by (simp add: move_def)
  next
    case ne: False
    show ?thesis
    proof (cases "k < j")
      case True
      then have "k < length xs - 1" using assms by simp
      with True ne step assms show ?thesis
        by (simp add: move_def pop_at_nth)
    next
      case False
      with ne have gt: "j < k" by simp
      then have "k - 1 < length xs - 1" using assms by simp
      from pop_at_nth [OF assms(1) this] gt ne step assms show ?thesis
        by (auto simp add: move_def)
    qed
  qed
qed

section \<open>Facts about the playlist operations\<close>

lemma save_tracks: "tracks (fst (snd (save now fault self fs))) = tracks self"
  by (simp add: save_def Let_def)

lemma reorder_tracks_in_bounds:
  assumes "i < length (tracks self)" "j < length (tracks self)"
  shows "reorder_tracks now fault self fs (int i) (int j)
         = Inr (save now fault (self\<lparr>tracks := move (tracks self) i j\<rparr>) fs)"
  using assms
  by (simp add: reorder_tracks_def list_pop_nat list_insert_nat bind_e_def move_def Let_def
        length_pop_at)

lemma reorder_tracks_result:
  assumes "0 \<le> old_index" "old_index < int (length (tracks self))"
    and "0 \<le> new_index" "new_index < int (length (tracks self))"
  shows "\<exists>ok self' fs'.
           reorder_tracks now fault self fs old_index new_index = Inr (ok, self', fs')
           \<and> tracks self' = move (tracks self) (nat old_index) (nat new_index)"
proof -
  from assms have i: "nat old_index < length (tracks self)"
    and j: "nat new_index < length (tracks self)" by simp_all
  let ?r = "save now fault (self\<lparr>tracks := move (tracks self) (nat old_index) (nat new_index)\<rparr>) fs"
  have "reorder_tracks now fault self fs old_index new_index = Inr ?r"
    using reorder_tracks_in_bounds [OF i j, of now fault fs] assms by simp
  moreover have "tracks (fst (snd ?r)) = move (tracks self) (nat old_index) (nat new_index)"
    by (simp add: save_tracks)
  ultimately show ?thesis
    by (metis prod.collapse)
qed



section \<open>Facts about manifests: writing and reading back\<close>

lemma map_of_drop_none:
  "distinct (map fst items) \<Longrightarrow>
   map_of (drop_none items) k =
     (case map_of items k of None \<Rightarrow> None | Some v \<Rightarrow> if v = JNull then None else Some v)"
proof (induction items)
  case Nil
  then show ?case by (simp add: drop_none_def)
next
  case (Cons kv items)
  then have ih: "map_of (drop_none items) k =
     (case map_of items k of None \<Rightarrow> None | Some v \<Rightarrow> if v = JNull then None else Some v)"
    by simp
  from Cons.prems have nk: "fst kv = k \<Longrightarrow> map_of items k = None"
    by (auto simp: map_of_eq_None_iff)
  show ?case
  proof (cases "fst kv = k")
    case True
    with nk ih show ?thesis by (cases kv) (auto simp: drop_none_def)
  next
    case False
    with ih show ?thesis by (cases kv) (auto simp: drop_none_def)
  qed
qed

lemma get_opt_str_opt_json:
  "map_of d k = (case opt_json JStr v of JNull \<Rightarrow> None | j \<Rightarrow> Some j) \<Longrightarrow> get_opt_str d k = Inr v"
  by (cases v) (simp_all add: get_opt_str_def opt_json_def)

lemma get_opt_int_opt_json:
  "map_of d k = (case opt_json JInt v of JNull \<Rightarrow> None | j \<Rightarrow> Some j) \<Longrightarrow> get_opt_int d k = Inr v"
  by (cases v) (simp_all add: get_opt_int_def opt_json_def)

lemma drop_none_opt:
  "(if opt_json enc v = JNull then None else Some (opt_json enc v))
     = (case opt_json enc v of JNull \<Rightarrow> None | j \<Rightarrow> Some j)"
  by (cases "opt_json enc v") simp_all

lemma distinct_track_keys: "distinct (map fst (track_asdict t))"
  by (simp add: track_asdict_def)

lemma track_lookup:
  "map_of (drop_none (track_asdict t)) k =
     (case map_of (track_asdict t) k of None \<Rightarrow> None
      | Some v \<Rightarrow> if v = JNull then None else Some v)"
  by (rule map_of_drop_none [OF distinct_track_keys])

lemma track_round_trip: "track_from_dict (track_to_dict t) = Inr t"
proof -
  let ?d = "drop_none (track_asdict t)"
  have "req_str ?d ''filename'' = Inr (filename t)"
    by (simp add: req_str_def track_lookup) (simp add: track_asdict_def)
  moreover have "req_str ?d ''title'' = Inr (title t)"
    by (simp add: req_str_def track_lookup) (simp add: track_asdict_def)
  moreover have "get_opt_str ?d ''artist'' = Inr (artist t)"
    by (rule get_opt_str_opt_json) (simp add: track_lookup, simp add: track_asdict_def drop_none_opt)
  moreover have "get_opt_str ?d ''album'' = Inr (album t)"
    by (rule get_opt_str_opt_json) (simp add: track_lookup, simp add: track_asdict_def drop_none_opt)
  moreover have "get_float ?d ''duration'' 0 = Inr (duration t)"
    by (simp add: get_float_def track_lookup) (simp add: track_asdict_def)
  moreover have "get_opt_int ?d ''track_number'' = Inr (track_number t)"
    by (rule get_opt_int_opt_json) (simp add: track_lookup, simp add: track_asdict_def drop_none_opt)
  moreover have "get_opt_int ?d ''year'' = Inr (year t)"
    by (rule get_opt_int_opt_json) (simp add: track_lookup, simp add: track_asdict_def drop_none_opt)
  moreover have "get_opt_str ?d ''genre'' = Inr (genre t)"
    by (rule get_opt_str_opt_json) (simp add: track_lookup, simp add: track_asdict_def drop_none_opt)
  moreover have "get_opt_str ?d ''downloaded_date'' = Inr (downloaded_date t)"
    by (rule get_opt_str_opt_json) (simp add: track_lookup, simp add: track_asdict_def drop_none_opt)
  moreover have "get_opt_str ?d ''source_id'' = Inr (source_id t)"
    by (rule get_opt_str_opt_json) (simp add: track_lookup, simp add: track_asdict_def drop_none_opt)
  moreover have "get_opt_str ?d ''file_hash'' = Inr (file_hash t)"
    by (rule get_opt_str_opt_json) (simp add: track_lookup, simp add: track_asdict_def drop_none_opt)
  moreover have "get_int ?d ''play_count'' 0 = Inr (play_count t)"
    by (simp add: get_int_def track_lookup) (simp add: track_asdict_def)
  moreover have "get_int ?d ''skip_count'' 0 = Inr (skip_count t)"
    by (simp add: get_int_def track_lookup) (simp add: track_asdict_def)
  moreover have "get_opt_str ?d ''last_played'' = Inr (last_played t)"
    by (rule get_opt_str_opt_json) (simp add: track_lookup, simp add: track_asdict_def drop_none_opt)
  ultimately show ?thesis
    by (simp add: track_from_dict_def track_to_dict_def bind_e_def)
qed

lemma tracks_round_trip: "map_e track_from_dict (map track_to_dict ts) = Inr ts"
  by (induction ts) (simp_all add: track_round_trip bind_e_def)

lemma tags_round_trip: "map_e as_str (map JStr xs) = Inr xs"
  by (induction xs) (simp_all add: as_str_def bind_e_def)

lemma settings_round_trip: "settings_from_dict (settings_to_dict s) = Inr s"
  by (simp add: settings_from_dict_def settings_to_dict_def get_bool_def get_str_def
        get_float_def bind_e_def)

lemma source_round_trip: "source_from_dict (source_to_dict s) = Inr s"
proof -
  let ?items = "[(''type'', JStr (type s)), (''url'', opt_json JStr (url s)),
                 (''last_sync'', opt_json JStr (last_sync s))]"
  have look: "\<And>k. map_of (drop_none ?items) k =
     (case map_of ?items k of None \<Rightarrow> None | Some v \<Rightarrow> if v = JNull then None else Some v)"
    by (rule map_of_drop_none) simp
  have "req_str (drop_none ?items) ''type'' = Inr (type s)"
    by (simp add: req_str_def look)
  moreover have "get_opt_str (drop_none ?items) ''url'' = Inr (url s)"
    by (rule get_opt_str_opt_json) (simp add: look drop_none_opt)
  moreover have "get_opt_str (drop_none ?items) ''last_sync'' = Inr (last_sync s)"
    by (rule get_opt_str_opt_json) (simp add: look drop_none_opt)
  ultimately show ?thesis
    by (simp add: source_from_dict_def source_to_dict_def bind_e_def)
qed

lemma foldl_plus_sum_list: "foldl (+) a xs = a + sum_list (xs :: real list)"
  by (induction xs arbitrary: a) simp_all

lemma save_json_written:
  "save_json fault fs filepath data = (True, fs') \<Longrightarrow> filepath \<noteq> [] \<Longrightarrow>
   lookup fs' filepath = Some (File (Json data))"
  by (auto simp: save_json_def Let_def lookup_def AList.update_conv'
           split: sum.splits if_splits)

lemma cover_image_read_back:
  "get_opt_str [(k, opt_json JStr v)] k = Inr v"
  by (cases v) (simp_all add: get_opt_str_def opt_json_def)

lemma get_opt_str_present:
  "map_of d k = Some (opt_json JStr v) \<Longrightarrow> get_opt_str d k = Inr v"
  by (cases v) (simp_all add: get_opt_str_def opt_json_def)

text \<open>What \<open>save\<close> hands to \<open>save_json\<close>, and what \<open>load\<close> makes of it.\<close>

definition manifest :: "string \<Rightarrow> Playlist \<Rightarrow> (string \<times> json) list" where
  "manifest now self =
     [(''name'', JStr (name self)),
      (''description'', JStr (description self)),
      (''created_date'', JStr (created_date self)),
      (''modified_date'', JStr now),
      (''cover_image'', opt_json JStr (cover_image self)),
      (''total_duration'', JFloat (foldl (+) 0 (map duration (tracks self)))),
      (''track_count'', JInt (int (length (tracks self)))),
      (''tags'', JList (map JStr (tags self))),
      (''source'', source_to_dict (source self)),
      (''settings'', settings_to_dict (settings self)),
      (''tracks'', JList (map track_to_dict (tracks self)))]"

lemma save_unfold:
  "save now fault self fs =
     (fst (save_json fault fs (path self @ [''playlist.json'']) (JObj (manifest now self))),
      self\<lparr>modified_date := now, track_count := int (length (tracks self)),
           total_duration := foldl (+) 0 (map duration (tracks self))\<rparr>,
      snd (save_json fault fs (path self @ [''playlist.json'']) (JObj (manifest now self))))"
  by (simp add: save_def Let_def manifest_def)

lemma load_manifest:
  assumes "lookup fs (path other @ [''playlist.json'']) = Some (File (Json (JObj (manifest now self))))"
  shows "load other fs =
     Inr (True, other\<lparr>name := name self, description := description self,
                      created_date := created_date self, modified_date := now,
                      cover_image := cover_image self,
                      total_duration := foldl (+) 0 (map duration (tracks self)),
                      track_count := int (length (tracks self)), tags := tags self,
                      source := source self, settings := settings self,
                      tracks := tracks self\<rparr>)"
proof -
  let ?d = "manifest now self"
  have lj: "load_json fs (path other @ [''playlist.json'']) = Inr (Some (JObj ?d))"
    using assms by (simp add: load_json_def)
  have tr: "truthy (JObj ?d)" by (simp add: manifest_def)
  have f1: "get_str ?d ''name'' (name other) = Inr (name self)"
    and f2: "get_str ?d ''description'' [] = Inr (description self)"
    and f3: "get_str ?d ''created_date'' (created_date other) = Inr (created_date self)"
    and f4: "get_str ?d ''modified_date'' (modified_date other) = Inr now"
    by (simp_all add: get_str_def manifest_def)
  have f5: "get_opt_str ?d ''cover_image'' = Inr (cover_image self)"
    by (rule get_opt_str_present) (simp add: manifest_def)
  have f6: "get_float ?d ''total_duration'' 0 = Inr (foldl (+) 0 (map duration (tracks self)))"
    and f7: "get_int ?d ''track_count'' 0 = Inr (int (length (tracks self)))"
    by (simp_all add: get_float_def get_int_def manifest_def)
  have m8: "map_of ?d ''tags'' = Some (JList (map JStr (tags self)))"
    and m9: "map_of ?d ''source'' = Some (source_to_dict (source self))"
    and m10: "map_of ?d ''settings'' = Some (settings_to_dict (settings self))"
    and m11: "map_of ?d ''tracks'' = Some (JList (map track_to_dict (tracks self)))"
    by (simp_all add: manifest_def)
  show ?thesis
    unfolding load_def Let_def lj
    by (simp add: bind_e_def tr f1 f2 f3 f4 f5 f6 f7 m8 m9 m10 m11 tags_round_trip
          source_round_trip settings_round_trip tracks_round_trip py_iter_def
          del: truthy.simps)
qed

lemma with_suffix_playlist_json:
  "with_suffix (d @ [''playlist.json'']) s = d @ [''playlist'' @ s]"
  by (simp add: with_suffix_def stem_def path_name_def parent_def)

lemma save_json_fresh:
  assumes "\<not> path_exists fs (d @ [''playlist.json''])"
    and "lookup fs (d @ [''playlist.json.tmp'']) \<noteq> Some Dir"
    and "lookup fs d = Some Dir"
  shows "save_json No_fault fs (d @ [''playlist.json'']) data =
     (True, AList.update (d @ [''playlist.json'']) (File (Json data))
              (AList.delete (d @ [''playlist.json.tmp''])
                 (AList.update (d @ [''playlist.json.tmp'']) (File (Json data)) fs)))"
proof -
  have "lookup (AList.update (d @ [''playlist.json.tmp'']) (File (Json data)) fs)
          (d @ [''playlist.json'']) = lookup fs (d @ [''playlist.json''])"
    by (simp add: lookup_def AList.update_conv')
  with assms(1) have "lookup (AList.update (d @ [''playlist.json.tmp'']) (File (Json data)) fs)
          (d @ [''playlist.json'']) \<noteq> Some Dir"
    by (simp add: path_exists_def)
  with assms show ?thesis
    by (simp add: save_json_def Let_def with_suffix_playlist_json parent_def)
qed

section \<open>Facts about the file system\<close>




























section \<open>Claims\<close>

text \<open>
  C9. For every URL string \<open>u\<close>, \<open>identify_service\<close> returns \<open>'spotify'\<close>, \<open>'youtube'\<close> or
  \<open>None\<close>, and never \<open>'youtube_music'\<close>: a URL that contains \<open>music.youtube.com\<close>
  contains \<open>youtube.com\<close>, which the chain tests first, so the third branch is dead.
\<close>

theorem identify_service_never_youtube_music:
  "identify_service u \<in> {Some ''spotify'', Some ''youtube'', None}
   \<and> identify_service u \<noteq> Some ''youtube_music''
   \<and> (py_in ''music.youtube.com'' u \<longrightarrow>
        identify_service u \<in> {Some ''spotify'', Some ''youtube''})"
  using music_youtube_contains_youtube [of u]
  by (auto simp: identify_service_def)

theorem identify_service_never_youtube_music_witness:
  "identify_service ''https://music.youtube.com/playlist?list=PL1'' = Some ''youtube''"
  using identify_service_never_youtube_music [of "''https://music.youtube.com/playlist?list=PL1''"]
  by (simp add: identify_service_def)

text \<open>
  C4. For every track sequence and every pair of in-bounds indices, \<open>reorder_tracks\<close>
  from \<open>old_index\<close> to \<open>new_index\<close> followed by \<open>reorder_tracks\<close> from \<open>new_index\<close> to
  \<open>old_index\<close> restores the original sequence. The first call is a move, not a swap:
  the moved track lands at \<open>new_index\<close>, and the sequence without it is the original
  sequence without it, so all other tracks keep their relative order. (The sequence
  is the one in memory; it changes whether or not writing the manifest succeeds.)
\<close>

theorem reorder_tracks_round_trip:
  assumes "0 \<le> old_index" "old_index < int (length (tracks self))"
    and "0 \<le> new_index" "new_index < int (length (tracks self))"
  shows "\<exists>ok1 self1 fs1 ok2 self2 fs2.
           reorder_tracks now1 fault1 self fs old_index new_index = Inr (ok1, self1, fs1)
           \<and> reorder_tracks now2 fault2 self1 fs1 new_index old_index = Inr (ok2, self2, fs2)
           \<and> tracks self2 = tracks self
           \<and> tracks self1 ! nat new_index = tracks self ! nat old_index
           \<and> take (nat new_index) (tracks self1) @ drop (Suc (nat new_index)) (tracks self1)
               = take (nat old_index) (tracks self) @ drop (Suc (nat old_index)) (tracks self)"
proof -
  from assms have i: "nat old_index < length (tracks self)"
    and j: "nat new_index < length (tracks self)" by simp_all
  obtain ok1 self1 fs1 where
    r1: "reorder_tracks now1 fault1 self fs old_index new_index = Inr (ok1, self1, fs1)"
    and t1: "tracks self1 = move (tracks self) (nat old_index) (nat new_index)"
    using reorder_tracks_result [OF assms] by blast
  have len: "length (tracks self1) = length (tracks self)"
    using t1 i by (simp add: length_move)
  have b: "0 \<le> new_index" "new_index < int (length (tracks self1))"
    "0 \<le> old_index" "old_index < int (length (tracks self1))"
    using assms len by simp_all
  obtain ok2 self2 fs2 where
    r2: "reorder_tracks now2 fault2 self1 fs1 new_index old_index = Inr (ok2, self2, fs2)"
    and t2: "tracks self2 = move (tracks self1) (nat new_index) (nat old_index)"
    using reorder_tracks_result [OF b] by blast
  have "tracks self2 = tracks self"
    using t1 t2 i j by (simp add: move_back)
  moreover have "tracks self1 ! nat new_index = tracks self ! nat old_index"
    using t1 i j by (simp add: move_nth_target)
  moreover have "take (nat new_index) (tracks self1) @ drop (Suc (nat new_index)) (tracks self1)
               = take (nat old_index) (tracks self) @ drop (Suc (nat old_index)) (tracks self)"
    using move_others [OF i j] t1 by (simp add: pop_at_def)
  ultimately show ?thesis using r1 r2 by blast
qed

theorem reorder_tracks_round_trip_witness:
  "\<exists>ok1 self1 fs1 ok2 self2 fs2.
     reorder_tracks ''t1'' No_fault example_playlist example_fs 0 2 = Inr (ok1, self1, fs1)
     \<and> reorder_tracks ''t2'' No_fault self1 fs1 2 0 = Inr (ok2, self2, fs2)
     \<and> tracks self2 = tracks example_playlist
     \<and> tracks self1 ! nat 2 = tracks example_playlist ! nat 0
     \<and> take (nat 2) (tracks self1) @ drop (Suc (nat 2)) (tracks self1)
         = take (nat 0) (tracks example_playlist) @ drop (Suc (nat 0)) (tracks example_playlist)"
proof -
  have "(0::int) \<le> 0" "0 < int (length (tracks example_playlist))"
    "(0::int) \<le> 2" "2 < int (length (tracks example_playlist))"
    by (simp_all add: example_playlist_def)
  from reorder_tracks_round_trip [OF this] show ?thesis .
qed




text \<open>
  C7. Reordering while a track is selected keeps the selected track pinned. For every
  in-bounds \<open>old_index\<close>, \<open>new_index\<close> and selection index: the handler returns; the new
  selection index is \<open>new_index\<close> when the moved track was the selected one, one less
  when the move went up past the selection, one more when it came down past it, and
  unchanged otherwise; it is in bounds, and it denotes in the reordered sequence the
  track that the old index denoted in the old one.
\<close>

theorem on_track_reordered_keeps_selection:
  assumes "current_playlist self = Some playlist"
    and "0 \<le> old_index" "old_index < int (length (tracks playlist))"
    and "0 \<le> new_index" "new_index < int (length (tracks playlist))"
    and "0 \<le> current_track_index self" "current_track_index self < int (length (tracks playlist))"
  shows "\<exists>self' fs' playlist'.
           on_track_reordered now fault fs self old_index new_index = Inr (self', fs')
           \<and> current_playlist self' = Some playlist'
           \<and> current_track_index self' =
               (if current_track_index self = old_index then new_index
                else if old_index < current_track_index self \<and> current_track_index self \<le> new_index
                then current_track_index self - 1
                else if new_index \<le> current_track_index self \<and> current_track_index self < old_index
                then current_track_index self + 1
                else current_track_index self)
           \<and> 0 \<le> current_track_index self'
           \<and> current_track_index self' < int (length (tracks playlist'))
           \<and> tracks playlist' ! nat (current_track_index self')
               = tracks playlist ! nat (current_track_index self)"
proof -
  let ?c = "current_track_index self"
  let ?c' = "if ?c = old_index then new_index
             else if old_index < ?c \<and> ?c \<le> new_index then ?c - 1
             else if new_index \<le> ?c \<and> ?c < old_index then ?c + 1
             else ?c"
  from assms have i: "nat old_index < length (tracks playlist)"
    and j: "nat new_index < length (tracks playlist)"
    and k: "nat ?c < length (tracks playlist)" by simp_all
  obtain ok playlist' fs' where
    r: "reorder_tracks now fault playlist fs old_index new_index = Inr (ok, playlist', fs')"
    and t: "tracks playlist' = move (tracks playlist) (nat old_index) (nat new_index)"
    using reorder_tracks_result [OF assms(2-5)] by blast
  let ?self1 = "self\<lparr>current_playlist := Some playlist'\<rparr>"
  let ?self' = "?self1\<lparr>current_track_index := ?c'\<rparr>"
  have run: "on_track_reordered now fault fs self old_index new_index = Inr (?self', fs')"
    using assms(1) r by (simp add: on_track_reordered_def bind_e_def Let_def)
  have len: "length (tracks playlist') = length (tracks playlist)"
    using t i by (simp add: length_move)
  have c0: "0 \<le> ?c'" and c1: "?c' < int (length (tracks playlist))"
    using assms by auto
  define o' n' c where "o' = nat old_index" and "n' = nat new_index" and "c = nat ?c"
  have eqs: "old_index = int o'" "new_index = int n'" "?c = int c"
    using assms by (simp_all add: o'_def n'_def c_def)
  define d where "d = (if c = o' then n'
             else if o' < c \<and> c \<le> n' then c - 1
             else if n' \<le> c \<and> c < o' then c + 1
             else c)"
  have cd: "?c' = int d"
    unfolding eqs d_def by (auto simp: of_nat_diff)
  have bounds: "o' < length (tracks playlist)" "n' < length (tracks playlist)"
    "c < length (tracks playlist)"
    using i j k by (simp_all add: o'_def n'_def c_def)
  have d_less: "d < length (tracks playlist)"
    using bounds by (auto simp: d_def)
  have "move (tracks playlist) o' n' ! d = tracks playlist ! c"
    unfolding move_nth [OF bounds(1) bounds(2) d_less]
    by (auto simp: d_def)
  then have "tracks playlist' ! nat ?c' = tracks playlist ! nat ?c"
    unfolding cd using t by (simp add: o'_def n'_def c_def)
  with run c0 c1 len show ?thesis
    by (intro exI [of _ ?self'] exI [of _ fs'] exI [of _ playlist']) simp
qed

theorem on_track_reordered_keeps_selection_witness:
  "\<exists>self' fs' playlist'.
     on_track_reordered ''t'' No_fault example_fs example_window 0 2 = Inr (self', fs')
     \<and> current_playlist self' = Some playlist'
     \<and> current_track_index self' = 1
     \<and> tracks playlist' ! nat (current_track_index self') = example_track ''c.mp3'' 3"
proof -
  have h: "current_playlist example_window = Some example_playlist"
    "(0::int) \<le> 0" "0 < int (length (tracks example_playlist))"
    "(0::int) \<le> 2" "2 < int (length (tracks example_playlist))"
    "0 \<le> current_track_index example_window"
    "current_track_index example_window < int (length (tracks example_playlist))"
    by (simp_all add: example_window_def example_playlist_def)
  have c: "current_track_index example_window = 2"
    by (simp add: example_window_def)
  have x: "tracks example_playlist ! nat 2 = example_track ''c.mp3'' 3"
    by (simp add: example_playlist_def numeral_2_eq_2)
  from on_track_reordered_keeps_selection [OF h, of "''t''" No_fault example_fs]
  obtain self' fs' playlist' where
    "on_track_reordered ''t'' No_fault example_fs example_window 0 2 = Inr (self', fs')"
    "current_playlist self' = Some playlist'"
    "current_track_index self' = 1"
    "tracks playlist' ! nat (current_track_index self') = example_track ''c.mp3'' 3"
    unfolding c x by auto
  then show ?thesis by (intro exI conjI)
qed

text \<open>
  C5, as the code has it. \<open>set_volume\<close> does not clamp: a level outside \<open>[0, 1]\<close> is
  ignored, and the stored volume and the pipeline stay as they were. A level inside
  the range is stored and handed to the pipeline at once. So a stored volume that lies
  in \<open>[0, 1]\<close> (as the initial 0.8 does) stays there after any \<open>set_volume\<close>; and
  \<open>play\<close> of a track neither changes the stored volume nor sets the pipeline's.
\<close>

theorem set_volume_guarded:
  assumes "0 \<le> player_volume self" "player_volume self \<le> 1"
  shows "0 \<le> player_volume (set_volume self level)
         \<and> player_volume (set_volume self level) \<le> 1
         \<and> (0 \<le> level \<and> level \<le> 1 \<longrightarrow>
              player_volume (set_volume self level) = level
              \<and> pipeline (set_volume self level) = pipeline self @ [Set_volume level])
         \<and> (level < 0 \<or> 1 < level \<longrightarrow> set_volume self level = self)
         \<and> player_volume (play (set_volume self level) track_path)
              = player_volume (set_volume self level)
         \<and> pipeline (play (set_volume self level) track_path)
              = pipeline (set_volume self level) @ [Set_uri track_path, Set_state Gst_PLAYING]"
  using assms by (auto simp: set_volume_def play_def)

theorem set_volume_guarded_witness:
  "player_volume (set_volume AudioPlayer_init (1 / 2)) = 1 / 2
   \<and> pipeline (set_volume AudioPlayer_init (1 / 2)) = [Set_volume (1 / 2)]
   \<and> set_volume AudioPlayer_init (3 / 2) = AudioPlayer_init
   \<and> player_volume (play (set_volume AudioPlayer_init (1 / 2)) example_dir) = 1 / 2"
proof -
  have h: "0 \<le> player_volume AudioPlayer_init" "player_volume AudioPlayer_init \<le> 1"
    by (simp_all add: AudioPlayer_init_def)
  have p: "pipeline AudioPlayer_init = []" by (simp add: AudioPlayer_init_def)
  from set_volume_guarded [OF h, of "1 / 2" example_dir] set_volume_guarded [OF h, of "3 / 2" example_dir]
  show ?thesis by (simp add: p)
qed

text \<open>
  The claim as stated fails: a level of 1.5 is not clamped to 1.0; the volume stays
  at the initial 0.8 and the pipeline is not called.
\<close>

theorem set_volume_clamp_counterexample:
  "player_volume (set_volume AudioPlayer_init (3 / 2)) \<noteq> min 1 (max 0 (3 / 2))
   \<and> player_volume (set_volume AudioPlayer_init (3 / 2)) = 8 / 10
   \<and> pipeline (set_volume AudioPlayer_init (3 / 2)) = []"
  by (simp add: set_volume_def AudioPlayer_init_def)

text \<open>
  C6, as the code has it. With a selected playlist that is not empty: when the position
  is above 3 seconds, \<open>play_previous\<close> only tells the pipeline to seek to 0; the
  index and everything else stay. Otherwise the index becomes \<open>(index - 1) mod n\<close>
  (so 0 becomes \<open>n - 1\<close>), and the track at the new index is played when its file
  exists; when the file is missing the index has moved all the same, but the player is
  not touched.
\<close>

theorem play_previous_behaviour:
  assumes "current_playlist self = Some playlist" "tracks playlist \<noteq> []"
  shows "(get_position query > 3 \<longrightarrow>
            play_previous query fs self
              = self\<lparr>audio_player :=
                   (audio_player self)\<lparr>pipeline := pipeline (audio_player self) @ [Seek_simple 0]\<rparr>\<rparr>
            \<and> current_track_index (play_previous query fs self) = current_track_index self)
         \<and> (\<not> get_position query > 3 \<longrightarrow>
              current_track_index (play_previous query fs self)
                = (current_track_index self - 1) mod int (length (tracks playlist))
              \<and> 0 \<le> current_track_index (play_previous query fs self)
              \<and> current_track_index (play_previous query fs self) < int (length (tracks playlist))
              \<and> (current_track_index self = 0 \<longrightarrow>
                   current_track_index (play_previous query fs self)
                     = int (length (tracks playlist)) - 1)
              \<and> (os_exists fs (py_join (path playlist)
                     (filename (tracks playlist !
                        nat ((current_track_index self - 1) mod int (length (tracks playlist)))))) \<longrightarrow>
                   audio_player (play_previous query fs self)
                     = start_position_updater (play (audio_player self)
                         (py_join (path playlist)
                            (filename (tracks playlist !
                               nat ((current_track_index self - 1) mod int (length (tracks playlist))))))))
              \<and> (\<not> os_exists fs (py_join (path playlist)
                     (filename (tracks playlist !
                        nat ((current_track_index self - 1) mod int (length (tracks playlist)))))) \<longrightarrow>
                   audio_player (play_previous query fs self) = audio_player self))"
proof -
  let ?n = "int (length (tracks playlist))"
  let ?i = "(current_track_index self - 1) mod ?n"
  let ?p = "py_join (path playlist) (filename (tracks playlist ! nat ?i))"
  have n: "0 < ?n" using assms(2) by simp
  have i0: "0 \<le> ?i" and i1: "?i < ?n" using n by simp_all
  have wrap: "current_track_index self = 0 \<Longrightarrow> ?i = ?n - 1"
    using n by (simp add: zmod_minus1)
  have seek0: "py_int 0 = 0" by (simp add: py_int_def)
  have gp: "get_track_path playlist ?i = Some ?p"
    using i0 i1 by (simp add: get_track_path_def)
  have far: "get_position query > 3 \<Longrightarrow>
        play_previous query fs self
          = self\<lparr>audio_player :=
               (audio_player self)\<lparr>pipeline := pipeline (audio_player self) @ [Seek_simple 0]\<rparr>\<rparr>"
    using assms by (simp add: play_previous_def seek_def seek0)
  have near: "\<not> get_position query > 3 \<Longrightarrow>
        play_previous query fs self = play_current_track fs (self\<lparr>current_track_index := ?i\<rparr>)"
    using assms by (simp add: play_previous_def)
  have pc_idx: "current_track_index (play_current_track fs (self\<lparr>current_track_index := ?i\<rparr>)) = ?i"
    using assms(1) gp i0 by (simp add: play_current_track_def Let_def)
  have pc_yes: "os_exists fs ?p \<Longrightarrow>
      audio_player (play_current_track fs (self\<lparr>current_track_index := ?i\<rparr>))
        = start_position_updater (play (audio_player self) ?p)"
    using assms(1) gp i0 by (simp add: play_current_track_def Let_def)
  have pc_no: "\<not> os_exists fs ?p \<Longrightarrow>
      audio_player (play_current_track fs (self\<lparr>current_track_index := ?i\<rparr>)) = audio_player self"
    using assms(1) gp i0 by (simp add: play_current_track_def Let_def)
  show ?thesis
  proof (intro conjI impI)
    assume f: "get_position query > 3"
    show "play_previous query fs self
          = self\<lparr>audio_player :=
               (audio_player self)\<lparr>pipeline := pipeline (audio_player self) @ [Seek_simple 0]\<rparr>\<rparr>"
      by (rule far [OF f])
    show "current_track_index (play_previous query fs self) = current_track_index self"
      by (simp add: far [OF f])
  next
    assume f: "\<not> get_position query > 3"
    show "current_track_index (play_previous query fs self) = ?i"
      by (simp only: near [OF f] pc_idx)
  next
    assume f: "\<not> get_position query > 3"
    show "0 \<le> current_track_index (play_previous query fs self)"
      using i0 by (simp only: near [OF f] pc_idx)
  next
    assume f: "\<not> get_position query > 3"
    show "current_track_index (play_previous query fs self) < ?n"
      using i1 by (simp only: near [OF f] pc_idx)
  next
    assume f: "\<not> get_position query > 3" and z: "current_track_index self = 0"
    have "current_track_index (play_previous query fs self) = ?i"
      by (simp only: near [OF f] pc_idx)
    also note wrap [OF z]
    finally show "current_track_index (play_previous query fs self) = ?n - 1" .
  next
    assume f: "\<not> get_position query > 3" and e: "os_exists fs ?p"
    show "audio_player (play_previous query fs self)
            = start_position_updater (play (audio_player self) ?p)"
      by (simp only: near [OF f] pc_yes [OF e])
  next
    assume f: "\<not> get_position query > 3" and e: "\<not> os_exists fs ?p"
    show "audio_player (play_previous query fs self) = audio_player self"
      by (simp only: near [OF f] pc_no [OF e])
  qed
qed

theorem play_previous_behaviour_witness:
  "play_previous (True, 5000000000) example_fs example_window
     = example_window\<lparr>audio_player := AudioPlayer_init\<lparr>pipeline := [Seek_simple 0]\<rparr>\<rparr>
   \<and> current_track_index (play_previous (True, 5000000000) example_fs example_window) = 2
   \<and> current_track_index (play_previous (True, 0) example_fs example_window) = 1
   \<and> audio_player (play_previous (True, 0) example_fs example_window) = AudioPlayer_init
   \<and> current_track_index
        (play_previous (False, 0) example_fs (example_window\<lparr>current_track_index := 0\<rparr>)) = 2
   \<and> audio_player
        (play_previous (False, 0) example_fs (example_window\<lparr>current_track_index := 0\<rparr>))
       = start_position_updater (play AudioPlayer_init (example_dir @ [''c.mp3'']))"
proof -
  have h: "current_playlist example_window = Some example_playlist"
    "tracks example_playlist \<noteq> []"
    by (simp_all add: example_window_def example_playlist_def)
  have h0: "current_playlist (example_window\<lparr>current_track_index := 0\<rparr>) = Some example_playlist"
    by (simp add: example_window_def)
  have far: "get_position (True, 5000000000) > 3"
    by (simp add: get_position_def Gst_SECOND_def)
  have near: "\<not> get_position (True, 0) > 3" "\<not> get_position (False, 0) > 3"
    by (simp_all add: get_position_def)
  have n: "int (length (tracks example_playlist)) = 3"
    by (simp add: example_playlist_def)
  have ix: "current_track_index example_window = 2"
    "current_track_index (example_window\<lparr>current_track_index := 0\<rparr>) = 0"
    "audio_player example_window = AudioPlayer_init"
    "audio_player (example_window\<lparr>current_track_index := 0\<rparr>) = AudioPlayer_init"
    "pipeline AudioPlayer_init = []"
    by (simp_all add: example_window_def AudioPlayer_init_def)
  have b: "py_join (path example_playlist) (filename (tracks example_playlist ! Suc 0))
             = example_dir @ [''b.mp3'']"
    and c: "py_join (path example_playlist) (filename (tracks example_playlist ! 2))
             = example_dir @ [''c.mp3'']"
    by (simp_all add: example_playlist_def example_track_def numeral_2_eq_2 py_join_single)
  have plain: "''..'' \<notin> set (example_dir @ [''b.mp3''])" "''..'' \<notin> set (example_dir @ [''c.mp3''])"
    by (simp_all add: example_dir_def)
  have missing: "\<not> os_exists example_fs (example_dir @ [''b.mp3''])"
    and there: "os_exists example_fs (example_dir @ [''c.mp3''])"
    unfolding os_exists_plain [OF plain(1)] os_exists_plain [OF plain(2)]
    by (simp_all add: path_exists_def lookup_def example_fs_def example_dir_def)
  note t1 = play_previous_behaviour [OF h, of "(True, 5000000000)" example_fs,
      THEN conjunct1, THEN mp, OF far]
  note t2 = play_previous_behaviour [OF h, of "(True, 0)" example_fs,
      THEN conjunct2, THEN mp, OF near(1)]
  note t3 = play_previous_behaviour [OF h0 h(2), of "(False, 0)" example_fs,
      THEN conjunct2, THEN mp, OF near(2)]
  from t1 have a1: "play_previous (True, 5000000000) example_fs example_window
     = example_window\<lparr>audio_player := AudioPlayer_init\<lparr>pipeline := [Seek_simple 0]\<rparr>\<rparr>"
    and a2: "current_track_index (play_previous (True, 5000000000) example_fs example_window) = 2"
    by (simp_all add: ix)
  from t2 missing have a3: "current_track_index (play_previous (True, 0) example_fs example_window) = 1"
    and a4: "audio_player (play_previous (True, 0) example_fs example_window) = AudioPlayer_init"
    by (simp_all add: ix n b)
  from t3 there have a5: "current_track_index
        (play_previous (False, 0) example_fs (example_window\<lparr>current_track_index := 0\<rparr>)) = 2"
    and a6: "audio_player
        (play_previous (False, 0) example_fs (example_window\<lparr>current_track_index := 0\<rparr>))
       = start_position_updater (play AudioPlayer_init (example_dir @ [''c.mp3'']))"
    by (simp_all add: ix n c)
  show ?thesis
    by (intro conjI a1 a2 a3 a4 a5 a6)
qed

text \<open>
  The claim as stated fails where the file of the previous track is missing: with the
  third track selected and the position at 0, the index moves to the second track,
  whose file \<open>b.mp3\<close> is not there, and nothing is played: the player is as it was,
  with no call made on the pipeline.
\<close>

theorem play_previous_counterexample:
  "current_track_index (play_previous (True, 0) example_fs example_window) = 1
   \<and> player_current_track (audio_player (play_previous (True, 0) example_fs example_window))
       \<noteq> Some (example_dir @ [''b.mp3''])
   \<and> pipeline (audio_player (play_previous (True, 0) example_fs example_window)) = []"
proof -
  have plain: "''..'' \<notin> set (example_dir @ [''b.mp3''])"
    by (simp add: example_dir_def)
  have missing: "\<not> os_exists example_fs (example_dir @ [''b.mp3''])"
    unfolding os_exists_plain [OF plain]
    by (simp add: path_exists_def lookup_def example_fs_def example_dir_def)
  have j: "py_join example_dir ''b.mp3'' = example_dir @ [''b.mp3'']"
    by (simp add: py_join_single)
  show ?thesis
    using missing
    by (simp add: play_previous_def play_current_track_def get_position_def get_track_path_def
        example_window_def example_playlist_def example_track_def j AudioPlayer_init_def)
qed

text \<open>
  C1. For every playlist: when \<open>save\<close> succeeds, \<open>load\<close> of the same directory (into
  the same object or any other object for that path) succeeds and gives back the name,
  description, creation date, cover image, tags, source, settings and tracks that were
  saved. After \<open>save\<close> the derived fields of the object are recomputed, \<open>track_count\<close>
  the length of the track sequence and \<open>total_duration\<close> the sum of the durations, and
  \<open>load\<close> reads those same values back. (Durations are reals here: the rounding of
  floating-point sums and NaN are outside the model.)
\<close>

theorem save_load_round_trip:
  assumes "save now fault self fs = (True, self', fs')" and "path other = path self"
  shows "\<exists>loaded.
           load other fs' = Inr (True, loaded)
           \<and> name loaded = name self \<and> description loaded = description self
           \<and> created_date loaded = created_date self \<and> cover_image loaded = cover_image self
           \<and> tags loaded = tags self \<and> source loaded = source self
           \<and> settings loaded = settings self \<and> tracks loaded = tracks self
           \<and> name self' = name self \<and> description self' = description self
           \<and> created_date self' = created_date self \<and> cover_image self' = cover_image self
           \<and> tags self' = tags self \<and> source self' = source self
           \<and> settings self' = settings self \<and> tracks self' = tracks self
           \<and> track_count self' = int (length (tracks self))
           \<and> total_duration self' = sum_list (map duration (tracks self))
           \<and> track_count loaded = int (length (tracks self))
           \<and> total_duration loaded = sum_list (map duration (tracks self))"
proof -
  let ?p = "path self @ [''playlist.json'']"
  let ?r = "save_json fault fs ?p (JObj (manifest now self))"
  from assms(1) have ok: "fst ?r = True" and fs': "snd ?r = fs'"
    and self': "self' = self\<lparr>modified_date := now, track_count := int (length (tracks self)),
                    total_duration := foldl (+) 0 (map duration (tracks self))\<rparr>"
    by (simp_all add: save_unfold)
  from ok fs' have "?r = (True, fs')" by (metis prod.collapse)
  then have "lookup fs' ?p = Some (File (Json (JObj (manifest now self))))"
    by (rule save_json_written) simp
  then have "lookup fs' (path other @ [''playlist.json''])
               = Some (File (Json (JObj (manifest now self))))"
    using assms(2) by simp
  from load_manifest [OF this] self' show ?thesis
    by (simp add: foldl_plus_sum_list)
qed

theorem save_load_round_trip_witness:
  "\<exists>self' fs' loaded.
     save ''2024-02-02T10:00:00'' No_fault example_playlist example_fs = (True, self', fs')
     \<and> load self' fs' = Inr (True, loaded)
     \<and> tracks loaded = tracks example_playlist
     \<and> tags loaded = [''rock'']
     \<and> track_count loaded = 3 \<and> total_duration loaded = 6"
proof -
  let ?r = "save ''2024-02-02T10:00:00'' No_fault example_playlist example_fs"
  have d: "path example_playlist = example_dir"
    by (simp add: example_playlist_def)
  have e: "\<not> path_exists example_fs (example_dir @ [''playlist.json''])"
    "lookup example_fs (example_dir @ [''playlist.json.tmp'']) \<noteq> Some Dir"
    "lookup example_fs example_dir = Some Dir"
    by (simp_all add: path_exists_def lookup_def example_fs_def example_dir_def)
  have ok: "fst ?r = True"
    unfolding save_unfold d by (simp add: save_json_fresh [OF e])
  have s: "?r = (True, fst (snd ?r), snd (snd ?r))"
    using ok by (cases ?r) simp
  have p: "path (fst (snd ?r)) = path example_playlist"
    by (simp add: save_unfold)
  have n: "tags example_playlist = [''rock'']"
    "int (length (tracks example_playlist)) = 3"
    "sum_list (map duration (tracks example_playlist)) = 6"
    by (simp_all add: example_playlist_def example_track_def)
  from save_load_round_trip [OF s p] obtain loaded where
    l: "load (fst (snd ?r)) (snd (snd ?r)) = Inr (True, loaded)"
    and t: "tracks loaded = tracks example_playlist" and g: "tags loaded = tags example_playlist"
    and c: "track_count loaded = int (length (tracks example_playlist))"
    and u: "total_duration loaded = sum_list (map duration (tracks example_playlist))"
    by blast
  have "?r = (True, fst (snd ?r), snd (snd ?r))
     \<and> load (fst (snd ?r)) (snd (snd ?r)) = Inr (True, loaded)
     \<and> tracks loaded = tracks example_playlist
     \<and> tags loaded = [''rock'']
     \<and> track_count loaded = 3 \<and> total_duration loaded = 6"
    using s l t g c u by (simp only: n)
  then show ?thesis
    by (intro exI)
qed

text \<open>
  C10. The rejection of a duplicate name in \<open>add_track\<close> applies only to files that
  come from outside. For every source that is a file whose parent directory is the
  playlist directory, \<open>add_track\<close> makes no existence check on the name: it returns
  with a new track for that file appended to the sequence, whatever the sequence
  already holds (so also when a track of the same filename is in it). The call is
  rejected as a duplicate exactly when the source exists, lies outside the playlist
  directory, and a path of its name exists inside; the playlist and the file system
  are then left as they were.
\<close>

theorem add_track_duplicate_check:
  "(parent audio_file = path self \<and> lookup fs audio_file = Some (File c) \<longrightarrow>
      (\<exists>ok self' fs' track.
         add_track meta hash now_track now_save fault self fs audio_file
           = Inr (ok, [], self', fs')
         \<and> tracks self' = tracks self @ [track]
         \<and> filename track = path_name audio_file))
   \<and> ((\<exists>ok self' fs'.
          add_track meta hash now_track now_save fault self fs audio_file
            = Inr (ok, [File_already_exists_in_playlist dest], self', fs'))
        \<longleftrightarrow> path_exists fs audio_file \<and> parent audio_file \<noteq> path self
            \<and> path_exists fs (path self @ [path_name audio_file])
            \<and> dest = path self @ [path_name audio_file])
   \<and> (path_exists fs audio_file \<and> parent audio_file \<noteq> path self
        \<and> path_exists fs (path self @ [path_name audio_file]) \<longrightarrow>
        add_track meta hash now_track now_save fault self fs audio_file
          = Inr (False, [File_already_exists_in_playlist (path self @ [path_name audio_file])],
                 self, fs))"
proof (intro conjI impI)
  assume h: "parent audio_file = path self \<and> lookup fs audio_file = Some (File c)"
  then have ne: "audio_file \<noteq> []" by (auto simp: lookup_def)
  from h have ex: "path_exists fs audio_file" by (simp add: path_exists_def)
  from h ne have split: "audio_file = path self @ [last audio_file]"
    by (metis append_butlast_last_id parent_def)
  have rel: "relative_to audio_file (path self) = Inr [last audio_file]"
    by (subst (1 2) split) (simp add: relative_to_def)
  let ?t = "\<lparr>filename = str_path [last audio_file],
               title = (case md_title meta of None \<Rightarrow> stem audio_file | Some s \<Rightarrow> s),
               artist = md_artist meta, album = md_album meta,
               duration = (case md_duration meta of None \<Rightarrow> 0 | Some r \<Rightarrow> r),
               track_number = md_track_number meta, year = md_year meta,
               genre = md_genre meta, downloaded_date = Some now_track, source_id = None,
               file_hash = Some hash, play_count = 0, skip_count = 0, last_played = None\<rparr>"
  have ff: "from_file meta hash now_track fs audio_file (path self) = Inr ?t"
    using h by (simp add: from_file_def rel bind_e_def)
  let ?r = "save now_save fault (self\<lparr>tracks := tracks self @ [?t]\<rparr>) fs"
  have run: "add_track meta hash now_track now_save fault self fs audio_file
               = Inr (fst ?r, [], fst (snd ?r), snd (snd ?r))"
    using h ex by (simp add: add_track_def add_track_tail_def ff bind_e_def Let_def)
  have "tracks (fst (snd ?r)) = tracks self @ [?t]"
    by (simp add: save_tracks)
  moreover have "filename ?t = path_name audio_file"
    using ne by (simp add: str_path_def path_name_def)
  ultimately show "\<exists>ok self' fs' track.
         add_track meta hash now_track now_save fault self fs audio_file
           = Inr (ok, [], self', fs')
         \<and> tracks self' = tracks self @ [track]
         \<and> filename track = path_name audio_file"
    using run by blast
next
  show "(\<exists>ok self' fs'.
          add_track meta hash now_track now_save fault self fs audio_file
            = Inr (ok, [File_already_exists_in_playlist dest], self', fs'))
        \<longleftrightarrow> path_exists fs audio_file \<and> parent audio_file \<noteq> path self
            \<and> path_exists fs (path self @ [path_name audio_file])
            \<and> dest = path self @ [path_name audio_file]"
    by (auto simp: add_track_def add_track_tail_def bind_e_def Let_def
             split: sum.splits if_splits)
next
  assume "path_exists fs audio_file \<and> parent audio_file \<noteq> path self
        \<and> path_exists fs (path self @ [path_name audio_file])"
  then show "add_track meta hash now_track now_save fault self fs audio_file
          = Inr (False, [File_already_exists_in_playlist (path self @ [path_name audio_file])],
                 self, fs)"
    by (simp add: add_track_def Let_def)
qed

theorem add_track_duplicate_check_witness:
  "(\<exists>ok self' fs'.
      add_track example_meta ''h'' ''t1'' ''t2'' No_fault example_playlist example_fs
          (example_dir @ [''a.mp3''])
        = Inr (ok, [], self', fs')
      \<and> map filename (tracks self') = [''a.mp3'', ''b.mp3'', ''c.mp3'', ''a.mp3''])
   \<and> add_track example_meta ''h'' ''t1'' ''t2'' No_fault example_playlist
         (([''tmp'', ''a.mp3''], File Not_utf8) # example_fs) [''tmp'', ''a.mp3'']
       = Inr (False, [File_already_exists_in_playlist (example_dir @ [''a.mp3''])],
              example_playlist, ([''tmp'', ''a.mp3''], File Not_utf8) # example_fs)"
proof -
  have p: "path example_playlist = example_dir"
    by (simp add: example_playlist_def)
  have inside: "parent (example_dir @ [''a.mp3'']) = path example_playlist
      \<and> lookup example_fs (example_dir @ [''a.mp3'']) = Some (File Not_utf8)"
    by (simp add: parent_def p lookup_def example_fs_def example_dir_def)
  have f: "map filename (tracks example_playlist) = [''a.mp3'', ''b.mp3'', ''c.mp3'']"
    "path_name (example_dir @ [''a.mp3'']) = ''a.mp3''"
    by (simp_all add: example_playlist_def example_track_def path_name_def)
  from add_track_duplicate_check [of "example_dir @ [''a.mp3'']" example_playlist example_fs Not_utf8
      example_meta "''h''" "''t1''" "''t2''" No_fault, THEN conjunct1, THEN mp, OF inside]
  obtain ok self' fs' track where
    r: "add_track example_meta ''h'' ''t1'' ''t2'' No_fault example_playlist example_fs
          (example_dir @ [''a.mp3'']) = Inr (ok, [], self', fs')"
    and t: "tracks self' = tracks example_playlist @ [track]"
    and n: "filename track = path_name (example_dir @ [''a.mp3''])"
    by blast
  from t n have m: "map filename (tracks self') = [''a.mp3'', ''b.mp3'', ''c.mp3'', ''a.mp3'']"
    by (simp add: f)
  have a: "\<exists>ok self' fs'.
      add_track example_meta ''h'' ''t1'' ''t2'' No_fault example_playlist example_fs
          (example_dir @ [''a.mp3''])
        = Inr (ok, [], self', fs')
      \<and> map filename (tracks self') = [''a.mp3'', ''b.mp3'', ''c.mp3'', ''a.mp3'']"
    by (rule exI [of _ ok], rule exI [of _ self'], rule exI [of _ fs'], rule conjI [OF r m])
  let ?fs = "([''tmp'', ''a.mp3''], File Not_utf8) # example_fs"
  have outside: "path_exists ?fs [''tmp'', ''a.mp3'']
      \<and> parent [''tmp'', ''a.mp3''] \<noteq> path example_playlist
      \<and> path_exists ?fs (path example_playlist @ [path_name [''tmp'', ''a.mp3'']])"
    by (simp add: path_exists_def lookup_def parent_def p path_name_def example_fs_def
          example_dir_def)
  have q: "path example_playlist @ [path_name [''tmp'', ''a.mp3'']] = example_dir @ [''a.mp3'']"
    by (simp add: p path_name_def)
  from add_track_duplicate_check [of "[''tmp'', ''a.mp3'']" example_playlist ?fs Not_utf8
      example_meta "''h''" "''t1''" "''t2''" No_fault, THEN conjunct2, THEN conjunct2, THEN mp,
      OF outside]
  have b: "add_track example_meta ''h'' ''t1'' ''t2'' No_fault example_playlist ?fs
             [''tmp'', ''a.mp3'']
       = Inr (False, [File_already_exists_in_playlist (example_dir @ [''a.mp3''])],
              example_playlist, ?fs)"
    by (simp only: q)
  show ?thesis by (rule conjI [OF a b])
qed

section \<open>Facts about the download loops\<close>

lemma example_fs_fresh:
  "\<not> path_exists example_fs (example_dir @ [''playlist.json''])"
  "lookup example_fs (example_dir @ [''playlist.json.tmp'']) \<noteq> Some Dir"
  "lookup example_fs example_dir = Some Dir"
  by (simp_all add: path_exists_def lookup_def example_fs_def example_dir_def)

lemma manifest_tracks_written:
  "manifest_tracks
     (AList.update (d @ [''playlist.json''])
        (File (Json (playlist_data n ds now c st u ts))) fs) d = Some ts"
  by (simp add: manifest_tracks_def lookup_def AList.update_conv' playlist_data_def)

lemma spotify_loop_example:
  "spotify_loop example_search (\<lambda>i. ''t'') 0 example_members
     (new_progress\<lparr>total_tracks := 5, completed_tracks := 0\<rparr>, [])
   = (st_progress, st_tracks) \<Longrightarrow>
   completed_tracks st_progress = 4 \<and> errors st_progress = [''Failed to download: s3'']
   \<and> map (\<lambda>t. case t of JObj d \<Rightarrow> map_of d ''filename'' | _ \<Rightarrow> None) st_tracks
       = [Some (JStr ''s1.mp3''), Some (JStr ''s2.mp3''), Some (JStr ''s4.mp3''),
          Some (JStr ''s5.mp3'')]"
  by (auto simp add: example_members_def example_member_def example_search_def new_progress_def
         path_name_def example_dir_def Let_def)

text \<open>
  The Spotify path does what the claim says: four tracks completed, one error, the four
  tracks in the manifest in the order they were fetched.
\<close>

lemma spotify_batch_with_one_failure:
  "fst example_spotify_run = Some example_dir
   \<and> completed_tracks (fst (snd example_spotify_run)) = 4
   \<and> length (errors (fst (snd example_spotify_run))) = 1
   \<and> manifest_filenames (snd (snd example_spotify_run)) example_dir
       = Some [Some (JStr ''s1.mp3''), Some (JStr ''s2.mp3''), Some (JStr ''s4.mp3''),
               Some (JStr ''s5.mp3'')]"
proof -
  obtain p ts where st: "spotify_loop example_search (\<lambda>i. ''t'') 0 example_members
     (new_progress\<lparr>total_tracks := 5, completed_tracks := 0\<rparr>, []) = (p, ts)"
    by (cases "spotify_loop example_search (\<lambda>i. ''t'') 0 example_members
     (new_progress\<lparr>total_tracks := 5, completed_tracks := 0\<rparr>, [])") blast
  note r = spotify_loop_example [OF st]
  have len: "int (length example_members) = 5" by (simp add: example_members_def)
  show ?thesis
    using r
    by (simp add: example_spotify_run_def download_spotify_tracks_def Let_def len st
          save_json_fresh [OF example_fs_fresh] manifest_filenames_def manifest_tracks_written)
qed

lemma youtube_loop_raising_example:
  "youtube_loop example_fetch_raising (\<lambda>i. ''t'') 0 example_entries
     (new_progress\<lparr>total_tracks := 5, completed_tracks := 0\<rparr>, [])
   = (e, st_progress, st_tracks) \<Longrightarrow>
   e = None \<and> completed_tracks st_progress = 4 \<and> errors st_progress = [''Failed: v3'']
   \<and> map (\<lambda>t. case t of JObj d \<Rightarrow> map_of d ''filename'' | _ \<Rightarrow> None) st_tracks
       = [Some (JStr ''v1.mp3''), Some (JStr ''v2.mp3''), Some (JStr ''v4.mp3''),
          Some (JStr ''v5.mp3'')]"
  by (auto simp add: example_entries_def example_entry_def example_fetch_raising_def
         new_progress_def path_name_def example_dir_def example_info_def Let_def)

lemma youtube_loop_missing_example:
  "youtube_loop example_fetch_missing (\<lambda>i. ''t'') 0 example_entries
     (new_progress\<lparr>total_tracks := 5, completed_tracks := 0\<rparr>, [])
   = (e, st_progress, st_tracks) \<Longrightarrow>
   e = None \<and> completed_tracks st_progress = 4 \<and> errors st_progress = []
   \<and> map (\<lambda>t. case t of JObj d \<Rightarrow> map_of d ''filename'' | _ \<Rightarrow> None) st_tracks
       = [Some (JStr ''v1.mp3''), Some (JStr ''v2.mp3''), Some (JStr ''v4.mp3''),
          Some (JStr ''v5.mp3'')]"
  by (auto simp add: example_entries_def example_entry_def example_fetch_missing_def
         new_progress_def path_name_def example_dir_def example_info_def Let_def)

text \<open>
  So does the YouTube path when the extraction of the third member raises.
\<close>

lemma youtube_batch_with_one_raising:
  "fst (example_youtube_run example_fetch_raising) = Some example_dir
   \<and> completed_tracks (fst (snd (example_youtube_run example_fetch_raising))) = 4
   \<and> length (errors (fst (snd (example_youtube_run example_fetch_raising)))) = 1
   \<and> manifest_filenames (snd (snd (example_youtube_run example_fetch_raising))) example_dir
       = Some [Some (JStr ''v1.mp3''), Some (JStr ''v2.mp3''), Some (JStr ''v4.mp3''),
               Some (JStr ''v5.mp3'')]"
proof -
  obtain e p ts where st: "youtube_loop example_fetch_raising (\<lambda>i. ''t'') 0 example_entries
     (new_progress\<lparr>total_tracks := 5, completed_tracks := 0\<rparr>, []) = (e, p, ts)"
    by (cases "youtube_loop example_fetch_raising (\<lambda>i. ''t'') 0 example_entries
     (new_progress\<lparr>total_tracks := 5, completed_tracks := 0\<rparr>, [])") blast
  note r = youtube_loop_raising_example [OF st]
  have len: "int (length example_entries) = 5" by (simp add: example_entries_def)
  show ?thesis
    using r
    by (simp add: example_youtube_run_def download_youtube_tracks_def Let_def len st
          save_json_fresh [OF example_fs_fresh] manifest_filenames_def manifest_tracks_written)
qed

text \<open>
  C3. A batch of five members in which exactly the third fails to materialize should
  end with \<open>completed_tracks = 4\<close>, one entry in \<open>errors\<close> and the four fetched tracks
  in the manifest, in order. On the YouTube path, when the extraction of the third
  member returns but its \<^verbatim>\<open>.mp3\<close> file is not there, the batch goes on and the manifest
  holds the four tracks, but \<open>errors\<close> stays empty: the loop has no branch for a file
  that is missing.
\<close>

theorem youtube_batch_missing_file_no_error:
  "fst (example_youtube_run example_fetch_missing) = Some example_dir
   \<and> completed_tracks (fst (snd (example_youtube_run example_fetch_missing))) = 4
   \<and> total_tracks (fst (snd (example_youtube_run example_fetch_missing))) = 5
   \<and> errors (fst (snd (example_youtube_run example_fetch_missing))) = []
   \<and> length (errors (fst (snd (example_youtube_run example_fetch_missing)))) \<noteq> 1
   \<and> manifest_filenames (snd (snd (example_youtube_run example_fetch_missing))) example_dir
       = Some [Some (JStr ''v1.mp3''), Some (JStr ''v2.mp3''), Some (JStr ''v4.mp3''),
               Some (JStr ''v5.mp3'')]"
proof -
  obtain e p ts where st: "youtube_loop example_fetch_missing (\<lambda>i. ''t'') 0 example_entries
     (new_progress\<lparr>total_tracks := 5, completed_tracks := 0\<rparr>, []) = (e, p, ts)"
    by (cases "youtube_loop example_fetch_missing (\<lambda>i. ''t'') 0 example_entries
     (new_progress\<lparr>total_tracks := 5, completed_tracks := 0\<rparr>, [])") blast
  note r = youtube_loop_missing_example [OF st]
  have tt: "total_tracks p = 5"
    using st
    by (auto simp add: example_entries_def example_entry_def example_fetch_missing_def
         new_progress_def Let_def)
  have len: "int (length example_entries) = 5" by (simp add: example_entries_def)
  show ?thesis
    using r tt
    by (simp add: example_youtube_run_def download_youtube_tracks_def Let_def len st
          save_json_fresh [OF example_fs_fresh] manifest_filenames_def manifest_tracks_written)
qed




end
